theory Spec2Isabelle
  imports Main "HOL-Library.Sublist" "HOL-Library.AList"
begin

section \<open>Python values and the primitives the server uses on them\<close>

text \<open>
  The server (server.py) reads an OpenAPI document that \<open>response.json()\<close> decoded and an
  argument bag that the protocol layer decoded, both typed \<open>Dict[str, Any]\<close>. A decoded
  JSON value is modelled by \<open>json\<close>; a dictionary keeps its insertion order, so an object is
  an association list (a Python dictionary never holds a key twice), and a string is the
  list of its characters (of its UTF-8 bytes, outside ASCII). Numbers that are not
  integers are not modelled.
\<close>

datatype json =
    JNull
  | JBool bool
  | JNum int
  | JStr string
  | JList "json list"
  | JObj "(string \<times> json) list"

text \<open>
  A raised exception is a value: its class and the text \<open>str(e)\<close> gives. \<open>HTTPError\<close>
  stands for httpx.HTTPError and its subclasses, \<open>OtherError\<close> for any other subclass of
  \<open>Exception\<close> a client may raise. \<open>CancelledError\<close> (asyncio, raised at an \<open>await\<close> when
  the request is cancelled), \<open>KeyboardInterrupt\<close> and \<open>SystemExit\<close> derive from
  \<open>BaseException\<close> only: \<open>except Exception\<close> does not catch them. For the errors the
  interpreter or a library raises the text follows CPython 3.12; \<open>ValidationError\<close>
  (pydantic) is abbreviated to its first line.
\<close>

datatype exn_kind =
  Exception | KeyError | TypeError | AttributeError | UnboundLocalError | ValidationError
  | HTTPError | OtherError | CancelledError | KeyboardInterrupt | SystemExit

datatype exn = Exn exn_kind string

fun exn_class :: "exn \<Rightarrow> exn_kind" where
  "exn_class (Exn k m) = k"

fun exn_message :: "exn \<Rightarrow> string" where
  "exn_message (Exn k m) = m"

text \<open>\<open>isinstance(e, Exception)\<close>.\<close>

fun derives_from_Exception :: "exn_kind \<Rightarrow> bool" where
  "derives_from_Exception CancelledError = False"
| "derives_from_Exception KeyboardInterrupt = False"
| "derives_from_Exception SystemExit = False"
| "derives_from_Exception k = True"

definition bind_exn :: "exn + 'a \<Rightarrow> ('a \<Rightarrow> exn + 'b) \<Rightarrow> exn + 'b" where
  "bind_exn m f = (case m of Inl e \<Rightarrow> Inl e | Inr x \<Rightarrow> f x)"

text \<open>\<open>for x in xs: state = body(x, state)\<close>, where the body may raise.\<close>

fun fold_exn :: "('a \<Rightarrow> 's \<Rightarrow> exn + 's) \<Rightarrow> 'a list \<Rightarrow> 's \<Rightarrow> exn + 's" where
  "fold_exn f [] s = Inr s"
| "fold_exn f (x # xs) s = bind_exn (f x s) (fold_exn f xs)"

text \<open>\<open>for x in xs: ...\<close> whose body may return from the enclosing function: \<open>None\<close> is
  a loop that ran to its end.\<close>

fun first_return :: "('a \<Rightarrow> 'r option) \<Rightarrow> 'a list \<Rightarrow> 'r option" where
  "first_return f [] = None"
| "first_return f (x # xs) = (case f x of Some r \<Rightarrow> Some r | None \<Rightarrow> first_return f xs)"

text \<open>A plain text between single quotes, as \<open>repr\<close> and the interpreter's messages
  print a type name or a simple key.\<close>

definition quoted :: "string \<Rightarrow> string" where
  "quoted s = CHR 0x27 # s @ [CHR 0x27]"

fun type_name :: "json \<Rightarrow> string" where
  "type_name JNull = ''NoneType''"
| "type_name (JBool b) = ''bool''"
| "type_name (JNum n) = ''int''"
| "type_name (JStr s) = ''str''"
| "type_name (JList xs) = ''list''"
| "type_name (JObj kvs) = ''dict''"

text \<open>Truth value of a Python object (\<open>not v\<close>, \<open>if v:\<close>, \<open>v or d\<close>).\<close>

fun truthy :: "json \<Rightarrow> bool" where
  "truthy JNull = False"
| "truthy (JBool b) = b"
| "truthy (JNum n) = (n \<noteq> 0)"
| "truthy (JStr s) = (s \<noteq> [])"
| "truthy (JList xs) = (xs \<noteq> [])"
| "truthy (JObj kvs) = (kvs \<noteq> [])"

definition has_key :: "(string \<times> json) list \<Rightarrow> string \<Rightarrow> bool" where
  "has_key kvs k = (map_of kvs k \<noteq> None)"

text \<open>\<open>v.get(k, d)\<close>: only a dictionary has the method.\<close>

fun py_get :: "json \<Rightarrow> string \<Rightarrow> json \<Rightarrow> exn + json" where
  "py_get (JObj kvs) k d = Inr (case map_of kvs k of Some x \<Rightarrow> x | None \<Rightarrow> d)"
| "py_get v k d =
     Inl (Exn AttributeError (quoted (type_name v) @ '' object has no attribute '' @ quoted ''get''))"

text \<open>\<open>k in v\<close> for a string \<open>k\<close>: a key of a dictionary, an element of a list, a substring
  of a string; the other values are no containers.\<close>

fun py_contains :: "string \<Rightarrow> json \<Rightarrow> exn + bool" where
  "py_contains k (JObj kvs) = Inr (has_key kvs k)"
| "py_contains k (JList xs) = Inr (JStr k \<in> set xs)"
| "py_contains k (JStr s) = Inr (sublist k s)"
| "py_contains k v =
     Inl (Exn TypeError (''argument of type '' @ quoted (type_name v) @ '' is not iterable''))"

text \<open>\<open>v[k]\<close> for a string \<open>k\<close>. The keys the server indexes by are literals of its own
  source (\<open>"paths"\<close>, a method name), whose \<open>repr\<close> is the key between single quotes.\<close>

fun py_index :: "json \<Rightarrow> string \<Rightarrow> exn + json" where
  "py_index (JObj kvs) k =
     (case map_of kvs k of Some x \<Rightarrow> Inr x | None \<Rightarrow> Inl (Exn KeyError (quoted k)))"
| "py_index (JList xs) k = Inl (Exn TypeError ''list indices must be integers or slices, not str'')"
| "py_index (JStr s) k = Inl (Exn TypeError (''string indices must be integers, not '' @ quoted ''str''))"
| "py_index v k = Inl (Exn TypeError (quoted (type_name v) @ '' object is not subscriptable''))"

text \<open>\<open>v.items()\<close>.\<close>

fun py_items :: "json \<Rightarrow> exn + (string \<times> json) list" where
  "py_items (JObj kvs) = Inr kvs"
| "py_items v =
     Inl (Exn AttributeError (quoted (type_name v) @ '' object has no attribute '' @ quoted ''items''))"

text \<open>\<open>for x in v\<close>: the elements of a list, the keys of a dictionary, the characters of
  a string.\<close>

fun py_iter :: "json \<Rightarrow> exn + json list" where
  "py_iter (JList xs) = Inr xs"
| "py_iter (JObj kvs) = Inr (map (\<lambda>kv. JStr (fst kv)) kvs)"
| "py_iter (JStr s) = Inr (map (\<lambda>c. JStr [c]) s)"
| "py_iter v = Inl (Exn TypeError (quoted (type_name v) @ '' object is not iterable''))"

text \<open>
  A dictionary keyed by decoded values (\<open>properties[param_name] = ...\<close>): lists and
  dictionaries are unhashable; \<open>True\<close> and \<open>1\<close> (\<open>False\<close> and \<open>0\<close>) are the same key;
  assigning to a key that is present keeps its place and its first key object.
\<close>

fun hashable :: "json \<Rightarrow> bool" where
  "hashable (JList xs) = False"
| "hashable (JObj kvs) = False"
| "hashable v = True"

fun key_norm :: "json \<Rightarrow> json" where
  "key_norm (JBool b) = JNum (if b then 1 else 0)"
| "key_norm v = v"

fun dict_set :: "json \<Rightarrow> 'v \<Rightarrow> (json \<times> 'v) list \<Rightarrow> (json \<times> 'v) list" where
  "dict_set k v [] = [(k, v)]"
| "dict_set k v (p # d) =
     (if key_norm (fst p) = key_norm k then (fst p, v) # d else p # dict_set k v d)"

definition py_setitem :: "json \<Rightarrow> 'v \<Rightarrow> (json \<times> 'v) list \<Rightarrow> exn + (json \<times> 'v) list" where
  "py_setitem k v d =
     (if hashable k then Inr (dict_set k v d)
      else Inl (Exn TypeError (''unhashable type: '' @ quoted (type_name k))))"

text \<open>\<open>str.replace(old, new)\<close>: every occurrence, left to right, without overlap.\<close>

function replace_py :: "string \<Rightarrow> string \<Rightarrow> string \<Rightarrow> string" where
  "replace_py old new [] = (if old = [] then new else [])"
| "replace_py old new (c # cs) =
     (if old = [] then new @ c # replace_py old new cs
      else if prefix old (c # cs) then new @ replace_py old new (drop (length old) (c # cs))
      else c # replace_py old new cs)"
  by pat_completeness auto
termination
  by (relation "measure (\<lambda>(old, new, s). length s)") auto

text \<open>\<open>str.upper()\<close> on ASCII text (the server upper-cases its five method names only).\<close>

definition upper_char :: "char \<Rightarrow> char" where
  "upper_char c =
     (if 97 \<le> (of_char c :: nat) \<and> (of_char c :: nat) \<le> 122 then char_of ((of_char c :: nat) - 32)
      else c)"

definition upper :: "string \<Rightarrow> string" where
  "upper s = map upper_char s"

text \<open>
  \<open>str(v)\<close> and \<open>json.dumps(v, indent=2)\<close>. The string of a string is itself. How Python
  prints the other values (\<open>repr\<close> of nested strings, escapes) is not modelled: it is taken
  from the run-time, as \<open>str_other\<close> and \<open>json_dumps\<close>.
\<close>

record py_runtime =
  str_other :: "json \<Rightarrow> string"
  json_dumps :: "json \<Rightarrow> string"

definition py_str :: "py_runtime \<Rightarrow> json \<Rightarrow> string" where
  "py_str rt v = (case v of JStr s \<Rightarrow> s | _ \<Rightarrow> str_other rt v)"

section \<open>The server state and the transport\<close>

text \<open>
  The globals of server.py: \<open>api_client\<close> and \<open>openapi_spec\<close>, both \<open>None\<close> until \<open>main\<close>
  sets them. The client (httpx.AsyncClient, an external library) is what the awaited call
  does with a request: it raises (any exception, \<open>CancelledError\<close> included), or it
  returns a response. Of a response the server uses
  \<open>raise_for_status()\<close>, \<open>json()\<close> (\<open>None\<close> below when it raises) and \<open>text\<close>.
\<close>

record request =
  req_method :: string
  req_path :: string
  req_params :: "(string \<times> json) list"
  req_json :: "json option"

record response =
  status_code :: nat
  status_error :: string
  resp_json :: "json option"
  resp_text :: string

type_synonym client = "request \<Rightarrow> exn + response"

record server_state =
  api_client :: "client option"
  openapi_spec :: "(string \<times> json) list option"

text \<open>\<open>response.raise_for_status()\<close> of httpx: a status outside 200..299 raises
  HTTPStatusError, a subclass of httpx.HTTPError, whose text is \<open>status_error\<close>.\<close>

definition raise_for_status :: "response \<Rightarrow> exn + response" where
  "raise_for_status r =
     (if 200 \<le> status_code r \<and> status_code r < 300 then Inr r
      else Inl (Exn HTTPError (status_error r)))"

section \<open>create\_tools\_from\_openapi\<close>

text \<open>The tool descriptor (mcp.types.Tool) and the input schema the server builds for it:
  \<open>{"type": "object", "properties": properties}\<close>, with \<open>"required"\<close> when there is one.\<close>

record input_schema =
  schema_type :: string
  properties :: "(json \<times> json) list"
  required :: "json list option"

record tool =
  tool_name :: string
  tool_description :: string
  inputSchema :: input_schema

text \<open>\<open>Tool(name=..., description=..., inputSchema=...)\<close>: the field \<open>name: str\<close> is
  validated, and only a string passes.\<close>

definition Tool :: "json \<Rightarrow> string \<Rightarrow> input_schema \<Rightarrow> exn + tool" where
  "Tool name description schema =
     (case name of
        JStr s \<Rightarrow> Inr \<lparr>tool_name = s, tool_description = description, inputSchema = schema\<rparr>
      | _ \<Rightarrow> Inl (Exn ValidationError ''1 validation error for Tool''))"

definition http_methods :: "string list" where
  "http_methods = [''get'', ''post'', ''put'', ''delete'', ''patch'']"

text \<open>Lines 158-165: the body of \<open>for param in operation["parameters"]\<close>.\<close>

definition add_parameter ::
  "json \<Rightarrow> (json \<times> json) list \<times> json list \<Rightarrow> exn + (json \<times> json) list \<times> json list" where
  "add_parameter param st =
     bind_exn (py_get param ''name'' JNull) (\<lambda>param_name.
     bind_exn (py_get param ''schema'' (JObj [])) (\<lambda>param_schema.
     bind_exn (py_get param_schema ''type'' (JStr ''string'')) (\<lambda>ty.
     bind_exn (py_get param ''description'' (JStr [])) (\<lambda>descr.
     bind_exn (py_setitem param_name (JObj [(''type'', ty), (''description'', descr)]) (fst st))
       (\<lambda>properties.
     bind_exn (py_get param ''required'' (JBool False)) (\<lambda>req.
     Inr (properties, if truthy req then snd st @ [param_name] else snd st)))))))"

text \<open>Lines 156-165.\<close>

definition add_parameters ::
  "json \<Rightarrow> (json \<times> json) list \<times> json list \<Rightarrow> exn + (json \<times> json) list \<times> json list" where
  "add_parameters operation st =
     bind_exn (py_contains ''parameters'' operation) (\<lambda>declared.
       if declared then
         bind_exn (py_index operation ''parameters'') (\<lambda>parameters.
         bind_exn (py_iter parameters) (\<lambda>params. fold_exn add_parameter params st))
       else Inr st)"

definition body_property :: json where
  "body_property = JObj [(''type'', JStr ''object''), (''description'', JStr ''Request body (JSON)'')]"

text \<open>Lines 172-178: the body of \<open>for content_type, content_data in ...items()\<close>.\<close>

definition add_content ::
  "json \<Rightarrow> string \<times> json \<Rightarrow> (json \<times> json) list \<times> json list
     \<Rightarrow> exn + (json \<times> json) list \<times> json list" where
  "add_content request_body content st =
     bind_exn (if sublist ''application/json'' (fst content)
               then py_contains ''schema'' (snd content) else Inr False) (\<lambda>json_schema.
       if json_schema then
         bind_exn (py_setitem (JStr ''requestBody'') body_property (fst st)) (\<lambda>properties.
         bind_exn (py_get request_body ''required'' (JBool False)) (\<lambda>req.
         Inr (properties, if truthy req then snd st @ [JStr ''requestBody''] else snd st)))
       else Inr st)"

text \<open>Lines 168-178.\<close>

definition add_request_body ::
  "json \<Rightarrow> (json \<times> json) list \<times> json list \<Rightarrow> exn + (json \<times> json) list \<times> json list" where
  "add_request_body operation st =
     bind_exn (py_contains ''requestBody'' operation) (\<lambda>declared.
       if declared then
         bind_exn (py_index operation ''requestBody'') (\<lambda>request_body.
         bind_exn (py_contains ''content'' request_body) (\<lambda>has_content.
           if has_content then
             bind_exn (py_index request_body ''content'') (\<lambda>content.
             bind_exn (py_items content) (\<lambda>items.
               fold_exn (add_content request_body) items st))
           else Inr st))
       else Inr st)"

definition fallback_name :: "string \<Rightarrow> string \<Rightarrow> string" where
  "fallback_name method path = method @ ''_'' @ replace_py ''/'' ''_'' path"

text \<open>Lines 146-192: one operation to its tool.\<close>

definition tool_of_operation :: "py_runtime \<Rightarrow> string \<Rightarrow> string \<Rightarrow> json \<Rightarrow> exn + tool" where
  "tool_of_operation rt method path operation =
     bind_exn (py_get operation ''operationId'' (JStr (fallback_name method path))) (\<lambda>operation_id.
     bind_exn (py_get operation ''summary'' (JStr [])) (\<lambda>summary.
     bind_exn (py_get operation ''description'' summary) (\<lambda>description.
     bind_exn (add_parameters operation ([], [])) (\<lambda>st1.
     bind_exn (add_request_body operation st1) (\<lambda>st2.
       Tool operation_id
         (py_str rt summary @ [CHR 0x0A, CHR 0x0A] @ ''Path: '' @ upper method @ '' '' @ path
            @ [CHR 0x0A] @ py_str rt description)
         \<lparr>schema_type = ''object'', properties = fst st2,
          required = (if snd st2 \<noteq> [] then Some (snd st2) else None)\<rparr>)))))"

text \<open>Lines 143-194: the body of \<open>for method in [...]\<close>; \<open>tools\<close> is the list built so far.\<close>

definition tools_for_method ::
  "py_runtime \<Rightarrow> string \<Rightarrow> json \<Rightarrow> string \<Rightarrow> tool list \<Rightarrow> exn + tool list" where
  "tools_for_method rt path path_item method tools =
     bind_exn (py_contains method path_item) (\<lambda>present.
       if \<not> present then Inr tools
       else
         bind_exn (py_index path_item method) (\<lambda>operation.
         bind_exn (tool_of_operation rt method path operation) (\<lambda>t. Inr (tools @ [t]))))"

definition tools_for_path :: "py_runtime \<Rightarrow> string \<times> json \<Rightarrow> tool list \<Rightarrow> exn + tool list" where
  "tools_for_path rt entry tools =
     fold_exn (tools_for_method rt (fst entry) (snd entry)) http_methods tools"

definition create_tools_from_openapi :: "py_runtime \<Rightarrow> server_state \<Rightarrow> exn + tool list" where
  "create_tools_from_openapi rt st =
     (case openapi_spec st of
        None \<Rightarrow> Inr []
      | Some spec \<Rightarrow>
          if spec = [] \<or> \<not> has_key spec ''paths'' then Inr []
          else
            bind_exn (py_index (JObj spec) ''paths'') (\<lambda>paths.
            bind_exn (py_items paths) (\<lambda>items. fold_exn (tools_for_path rt) items [])))"

section \<open>call\_api\_operation\<close>

text \<open>\<open>param_name in arguments\<close> and, when it holds, the key and \<open>arguments[param_name]\<close>.
  The keys of the argument bag are strings, so only a string can be among them; a list
  or a dictionary cannot be hashed.\<close>

fun lookup_argument :: "json \<Rightarrow> (string \<times> json) list \<Rightarrow> exn + (string \<times> json) option" where
  "lookup_argument (JStr n) arguments = Inr (map_option (Pair n) (map_of arguments n))"
| "lookup_argument (JList xs) arguments =
     Inl (Exn TypeError (''unhashable type: '' @ quoted ''list''))"
| "lookup_argument (JObj kvs) arguments =
     Inl (Exn TypeError (''unhashable type: '' @ quoted ''dict''))"
| "lookup_argument v arguments = Inr None"

text \<open>Lines 229-236: the body of \<open>for param in operation["parameters"]\<close>; the state is
  \<open>(actual_path, request_params)\<close>.\<close>

definition partition_step ::
  "py_runtime \<Rightarrow> (string \<times> json) list \<Rightarrow> json \<Rightarrow> string \<times> (string \<times> json) list
     \<Rightarrow> exn + string \<times> (string \<times> json) list" where
  "partition_step rt arguments param st =
     bind_exn (py_get param ''name'' JNull) (\<lambda>param_name.
     bind_exn (py_get param ''in'' JNull) (\<lambda>param_in.
     bind_exn (lookup_argument param_name arguments) (\<lambda>arg.
       case arg of
         None \<Rightarrow> Inr st
       | Some (n, v) \<Rightarrow>
           if param_in = JStr ''path'' then
             Inr (replace_py (''{'' @ n @ ''}'') (py_str rt v) (fst st), snd st)
           else if param_in = JStr ''query'' then Inr (fst st, AList.update n v (snd st))
           else Inr st)))"

text \<open>Lines 222-236.\<close>

definition partition_arguments ::
  "py_runtime \<Rightarrow> (string \<times> json) list \<Rightarrow> json \<Rightarrow> string \<Rightarrow> exn + string \<times> (string \<times> json) list" where
  "partition_arguments rt arguments operation path =
     bind_exn (py_contains ''parameters'' operation) (\<lambda>declared.
       if declared then
         bind_exn (py_index operation ''parameters'') (\<lambda>parameters.
         bind_exn (py_iter parameters) (\<lambda>params.
           fold_exn (partition_step rt arguments) params (path, [])))
       else Inr (path, []))"

text \<open>Lines 244-253: the call each method makes; \<open>get\<close> and \<open>delete\<close> pass no body. A
  method outside the five would leave \<open>response\<close> unbound.\<close>

definition method_request ::
  "string \<Rightarrow> string \<Rightarrow> (string \<times> json) list \<Rightarrow> json \<Rightarrow> request option" where
  "method_request method actual_path request_params request_body =
     (if method = ''get'' then
        Some \<lparr>req_method = ''get'', req_path = actual_path, req_params = request_params,
              req_json = None\<rparr>
      else if method = ''post'' then
        Some \<lparr>req_method = ''post'', req_path = actual_path, req_params = request_params,
              req_json = Some request_body\<rparr>
      else if method = ''put'' then
        Some \<lparr>req_method = ''put'', req_path = actual_path, req_params = request_params,
              req_json = Some request_body\<rparr>
      else if method = ''delete'' then
        Some \<lparr>req_method = ''delete'', req_path = actual_path, req_params = request_params,
              req_json = None\<rparr>
      else if method = ''patch'' then
        Some \<lparr>req_method = ''patch'', req_path = actual_path, req_params = request_params,
              req_json = Some request_body\<rparr>
      else None)"

text \<open>\<open>except httpx.HTTPError as e: raise Exception(f"API call failed: {e}")\<close>; any other
  exception passes through.\<close>

definition wrap_http_error :: "exn \<Rightarrow> exn" where
  "wrap_http_error e =
     (if exn_class e = HTTPError then Exn Exception (''API call failed: '' @ exn_message e)
      else e)"

text \<open>Lines 243-264. The result comes with the requests that were sent.\<close>

definition dispatch ::
  "client \<Rightarrow> string \<Rightarrow> string \<Rightarrow> (string \<times> json) list \<Rightarrow> json \<Rightarrow> (exn + json) \<times> request list" where
  "dispatch cl method actual_path request_params request_body =
     (case method_request method actual_path request_params request_body of
        None \<Rightarrow>
          (Inl (Exn UnboundLocalError
                 (''cannot access local variable '' @ quoted ''response''
                    @ '' where it is not associated with a value'')), [])
      | Some req \<Rightarrow>
          (case bind_exn (cl req) raise_for_status of
             Inl e \<Rightarrow> (Inl (wrap_http_error e), [req])
           | Inr resp \<Rightarrow>
               (Inr (case resp_json resp of Some j \<Rightarrow> j | None \<Rightarrow> JStr (resp_text resp)), [req])))"

text \<open>Lines 221-264: what is done with the operation that matched. \<open>request_body\<close> starts
  as \<open>None\<close>.\<close>

definition invoke ::
  "py_runtime \<Rightarrow> client \<Rightarrow> string \<Rightarrow> string \<Rightarrow> json \<Rightarrow> (string \<times> json) list
     \<Rightarrow> (exn + json) \<times> request list" where
  "invoke rt cl method path operation arguments =
     (case partition_arguments rt arguments operation path of
        Inl e \<Rightarrow> (Inl e, [])
      | Inr st \<Rightarrow>
          dispatch cl method (fst st) (snd st)
            (case map_of arguments ''requestBody'' of Some b \<Rightarrow> b | None \<Rightarrow> JNull))"

text \<open>Lines 216-264: the body of \<open>for method in [...]\<close>; \<open>None\<close> goes on with the next
  method, \<open>Some\<close> leaves \<open>call_api_operation\<close> (by \<open>return\<close> or by an exception).\<close>

definition scan_method ::
  "py_runtime \<Rightarrow> client \<Rightarrow> string \<Rightarrow> (string \<times> json) list \<Rightarrow> string \<Rightarrow> json \<Rightarrow> string
     \<Rightarrow> ((exn + json) \<times> request list) option" where
  "scan_method rt cl operation_id arguments path path_item method =
     (case py_contains method path_item of
        Inl e \<Rightarrow> Some (Inl e, [])
      | Inr present \<Rightarrow>
          if \<not> present then None
          else
            (case bind_exn (py_index path_item method)
                    (\<lambda>operation. bind_exn (py_get operation ''operationId'' JNull)
                       (\<lambda>oid. Inr (operation, oid))) of
               Inl e \<Rightarrow> Some (Inl e, [])
             | Inr found \<Rightarrow>
                 if snd found = JStr operation_id
                 then Some (invoke rt cl method path (fst found) arguments)
                 else None))"

definition scan_path ::
  "py_runtime \<Rightarrow> client \<Rightarrow> string \<Rightarrow> (string \<times> json) list \<Rightarrow> string \<times> json
     \<Rightarrow> ((exn + json) \<times> request list) option" where
  "scan_path rt cl operation_id arguments entry =
     first_return (scan_method rt cl operation_id arguments (fst entry) (snd entry)) http_methods"

definition not_initialized :: exn where
  "not_initialized = Exn Exception ''API client or OpenAPI spec not initialized''"

definition operation_not_found :: "string \<Rightarrow> exn" where
  "operation_not_found operation_id =
     Exn Exception (''Operation '' @ operation_id @ '' not found in OpenAPI spec'')"

definition call_api_operation ::
  "py_runtime \<Rightarrow> server_state \<Rightarrow> string \<Rightarrow> (string \<times> json) list \<Rightarrow> (exn + json) \<times> request list" where
  "call_api_operation rt st operation_id arguments =
     (case api_client st of
        None \<Rightarrow> (Inl not_initialized, [])
      | Some cl \<Rightarrow>
          (case openapi_spec st of
             None \<Rightarrow> (Inl not_initialized, [])
           | Some spec \<Rightarrow>
               if spec = [] then (Inl not_initialized, [])
               else
                 (case bind_exn (py_index (JObj spec) ''paths'') py_items of
                    Inl e \<Rightarrow> (Inl e, [])
                  | Inr items \<Rightarrow>
                      (case first_return (scan_path rt cl operation_id arguments) items of
                         Some r \<Rightarrow> r
                       | None \<Rightarrow> (Inl (operation_not_found operation_id), [])))))"

section \<open>call\_tool\<close>

record text_content =
  content_type :: string
  content_text :: string

definition is_container :: "json \<Rightarrow> bool" where
  "is_container v = (case v of JObj kvs \<Rightarrow> True | JList xs \<Rightarrow> True | _ \<Rightarrow> False)"

text \<open>Lines 304-321. \<open>arguments or {}\<close>: the protocol layer passes a dictionary or \<open>None\<close>.
  \<open>except Exception\<close> turns an exception of that class into the payload and lets every
  other one pass. The handler's outcome is kept beside the requests sent.\<close>

definition call_tool ::
  "py_runtime \<Rightarrow> server_state \<Rightarrow> string \<Rightarrow> (string \<times> json) list option
     \<Rightarrow> (exn + text_content list) \<times> request list" where
  "call_tool rt st name arguments =
     (let r = call_api_operation rt st name (case arguments of None \<Rightarrow> [] | Some a \<Rightarrow> a) in
        (case fst r of
           Inr result \<Rightarrow>
             Inr [\<lparr>content_type = ''text'',
                   content_text = (if is_container result then json_dumps rt result
                                   else py_str rt result)\<rparr>]
         | Inl e \<Rightarrow>
             if derives_from_Exception (exn_class e)
             then Inr [\<lparr>content_type = ''text'', content_text = ''Error: '' @ exn_message e\<rparr>]
             else Inl e,
         snd r))"

section \<open>What a call is expected to send\<close>

text \<open>
  The definitions of this section state the theorems; they are not parts of server.py.
  The first ones list the operations of a paths collection in the order of the scan,
  each with its path and method, and pick out those with a given identifier.
\<close>

definition operations_at :: "string \<times> json \<Rightarrow> (string \<times> string \<times> json) list" where
  "operations_at entry =
     (case snd entry of
        JObj item \<Rightarrow>
          List.map_filter (\<lambda>m. map_option (\<lambda>operation. (fst entry, m, operation)) (map_of item m))
            http_methods
      | _ \<Rightarrow> [])"

definition all_operations :: "(string \<times> json) list \<Rightarrow> (string \<times> string \<times> json) list" where
  "all_operations paths = concat (map operations_at paths)"

definition has_id :: "string \<Rightarrow> string \<times> string \<times> json \<Rightarrow> bool" where
  "has_id oid located = (py_get (snd (snd located)) ''operationId'' JNull = Inr (JStr oid))"

text \<open>The declared parameters of an operation, when they are a list (none when the key is
  absent), and a parameter of the expected shape: an object whose name, if any, can be
  hashed.\<close>

definition parameters_of :: "json \<Rightarrow> json list option" where
  "parameters_of operation =
     (case operation of
        JObj kvs \<Rightarrow>
          (case map_of kvs ''parameters'' of
             None \<Rightarrow> Some [] | Some (JList params) \<Rightarrow> Some params | Some _ \<Rightarrow> None)
      | _ \<Rightarrow> None)"

fun well_formed_parameter :: "json \<Rightarrow> bool" where
  "well_formed_parameter (JObj kvs) =
     (case map_of kvs ''name'' of None \<Rightarrow> True | Some name \<Rightarrow> hashable name)"
| "well_formed_parameter v = False"

text \<open>
  The argument partition in the words of the specification (section 4.3, step 2), to be
  compared with \<open>partition_arguments\<close> above: start from the path template; for every
  declared parameter present in the argument bag, if its location is \<open>path\<close>, substitute
  the literal placeholder \<open>{name}\<close> with the stringified argument value; if its location
  is \<open>query\<close>, add it to the query parameters. \<open>located_argument\<close> is the name and value
  of a declared parameter of the given location that is present in the bag.
\<close>

definition located_argument ::
  "string \<Rightarrow> (string \<times> json) list \<Rightarrow> json \<Rightarrow> (string \<times> json) option" where
  "located_argument location arguments param =
     (case param of
        JObj kvs \<Rightarrow>
          (if map_of kvs ''in'' = Some (JStr location) then
             (case map_of kvs ''name'' of
                Some (JStr n) \<Rightarrow> map_option (Pair n) (map_of arguments n)
              | _ \<Rightarrow> None)
           else None)
      | _ \<Rightarrow> None)"

fun substituted_path :: "py_runtime \<Rightarrow> (string \<times> json) list \<Rightarrow> json list \<Rightarrow> string \<Rightarrow> string" where
  "substituted_path rt arguments [] path = path"
| "substituted_path rt arguments (param # params) path =
     substituted_path rt arguments params
       (case located_argument ''path'' arguments param of
          Some (n, v) \<Rightarrow> replace_py (''{'' @ n @ ''}'') (py_str rt v) path
        | None \<Rightarrow> path)"

fun query_parameters ::
  "(string \<times> json) list \<Rightarrow> json list \<Rightarrow> (string \<times> json) list \<Rightarrow> (string \<times> json) list" where
  "query_parameters arguments [] query = query"
| "query_parameters arguments (param # params) query =
     query_parameters arguments params
       (case located_argument ''query'' arguments param of
          Some (n, v) \<Rightarrow> AList.update n v query
        | None \<Rightarrow> query)"

text \<open>The JSON body a method passes on: none for \<open>get\<close> and \<open>delete\<close>, otherwise the
  value under the reserved key \<open>requestBody\<close>, \<open>None\<close> when the bag has none.\<close>

definition body_argument :: "string \<Rightarrow> (string \<times> json) list \<Rightarrow> json option" where
  "body_argument m arguments =
     (if m = ''get'' \<or> m = ''delete'' then None
      else Some (case map_of arguments ''requestBody'' of Some b \<Rightarrow> b | None \<Rightarrow> JNull))"



section \<open>Documents: shape and examples\<close>

text \<open>The state \<open>main\<close> leaves behind: a client and the document it fetched.\<close>

definition loaded :: "client \<Rightarrow> (string \<times> json) list \<Rightarrow> server_state" where
  "loaded cl spec = \<lparr>api_client = Some cl, openapi_spec = Some spec\<rparr>"

fun is_dict :: "json \<Rightarrow> bool" where
  "is_dict (JObj kvs) = True"
| "is_dict v = False"

text \<open>The operations a path item holds under the five methods, in their order.\<close>

definition operations_of :: "json \<Rightarrow> json list" where
  "operations_of path_item =
     (case path_item of JObj item \<Rightarrow> List.map_filter (map_of item) http_methods | _ \<Rightarrow> [])"

text \<open>A paths collection of the expected shape: every path item is an object, and so is
  every operation in it.\<close>

definition well_formed_paths :: "(string \<times> json) list \<Rightarrow> bool" where
  "well_formed_paths paths =
     list_all (\<lambda>entry. is_dict (snd entry) \<and> list_all is_dict (operations_of (snd entry))) paths"

text \<open>Some operation of the collection has the string \<open>oid\<close> as its \<open>operationId\<close>.\<close>

definition declares :: "(string \<times> json) list \<Rightarrow> string \<Rightarrow> bool" where
  "declares paths oid =
     list_ex (\<lambda>entry. list_ex (\<lambda>operation. py_get operation ''operationId'' JNull = Inr (JStr oid))
                (operations_of (snd entry))) paths"

text \<open>A run-time for the examples: they print strings only, so what it prints for the
  other values is never asked for.\<close>

definition example_runtime :: py_runtime where
  "example_runtime = \<lparr>str_other = (\<lambda>v. []), json_dumps = (\<lambda>v. [])\<rparr>"

text \<open>A service that answers every request with status 200 and the request's path as plain
  text, and one that answers with the JSON document \<open>{"ok": true}\<close>.\<close>

definition text_client :: client where
  "text_client req =
     Inr \<lparr>status_code = 200, status_error = [], resp_json = None, resp_text = req_path req\<rparr>"

definition json_client :: client where
  "json_client req =
     Inr \<lparr>status_code = 200, status_error = [], resp_json = Some (JObj [(''ok'', JBool True)]),
          resp_text = ''{\"ok\": true}''\<rparr>"

definition id_parameter :: json where
  "id_parameter =
     JObj [(''name'', JStr ''id''), (''in'', JStr ''path''), (''required'', JBool True),
           (''schema'', JObj [(''type'', JStr ''string'')])]"

definition beacons_paths :: "(string \<times> json) list" where
  "beacons_paths =
     [(''/beacons/{id}'', JObj [(''get'', JObj [])]),
      (''/targets'', JObj [(''get'', JObj [(''operationId'', JStr ''getTarget'')])]),
      (''/beacons/{id}/kill'',
         JObj [(''post'', JObj [(''operationId'', JStr ''killBeacon''),
                                (''parameters'', JList [id_parameter])])])]"

definition beacons_spec :: "(string \<times> json) list" where
  "beacons_spec = [(''openapi'', JStr ''3.0.1''), (''paths'', JObj beacons_paths)]"

text \<open>The tools of that document.\<close>

definition beacons_tools :: "tool list" where
  "beacons_tools =
     [\<lparr>tool_name = ''get__beacons_{id}'',
        tool_description = [CHR 0x0A, CHR 0x0A] @ ''Path: GET /beacons/{id}'' @ [CHR 0x0A],
        inputSchema = \<lparr>schema_type = ''object'', properties = [], required = None\<rparr>\<rparr>,
      \<lparr>tool_name = ''getTarget'',
        tool_description = [CHR 0x0A, CHR 0x0A] @ ''Path: GET /targets'' @ [CHR 0x0A],
        inputSchema = \<lparr>schema_type = ''object'', properties = [], required = None\<rparr>\<rparr>,
      \<lparr>tool_name = ''killBeacon'',
        tool_description = [CHR 0x0A, CHR 0x0A] @ ''Path: POST /beacons/{id}/kill'' @ [CHR 0x0A],
        inputSchema =
          \<lparr>schema_type = ''object'',
           properties = [(JStr ''id'', JObj [(''type'', JStr ''string''), (''description'', JStr [])])],
           required = Some [JStr ''id'']\<rparr>\<rparr>]"

text \<open>A document without a \<open>paths\<close> key.\<close>

definition no_paths_spec :: "(string \<times> json) list" where
  "no_paths_spec = [(''openapi'', JStr ''3.0.1'')]"

text \<open>\<open>GET /a\<close> has no identifier; \<open>GET /b\<close> declares the name the first one falls back to.\<close>

definition collision_paths :: "(string \<times> json) list" where
  "collision_paths =
     [(''/a'', JObj [(''get'', JObj [])]),
      (''/b'', JObj [(''get'', JObj [(''operationId'', JStr ''get__a'')])])]"

definition collision_spec :: "(string \<times> json) list" where
  "collision_spec = [(''paths'', JObj collision_paths)]"

text \<open>An operation with a header parameter.\<close>

definition trace_parameter :: "(string \<times> json) list" where
  "trace_parameter = [(''name'', JStr ''X-Trace''), (''in'', JStr ''header'')]"

definition list_tasks :: "(string \<times> json) list" where
  "list_tasks = [(''operationId'', JStr ''listTasks''), (''parameters'', JList [JObj trace_parameter])]"

definition header_spec :: "(string \<times> json) list" where
  "header_spec = [(''paths'', JObj [(''/tasks'', JObj [(''get'', JObj list_tasks)])])]"







text \<open>An operation with a path, a header and a query parameter; the template has a
  placeholder for the path parameter and one named like the header parameter.\<close>

definition filter_parameter :: json where
  "filter_parameter = JObj [(''name'', JStr ''filter''), (''in'', JStr ''query'')]"

definition get_task :: "(string \<times> json) list" where
  "get_task =
     [(''operationId'', JStr ''getTask''),
      (''parameters'', JList [id_parameter, JObj trace_parameter, filter_parameter])]"

definition traced_paths :: "(string \<times> json) list" where
  "traced_paths = [(''/tasks/{id}/{X-Trace}'', JObj [(''get'', JObj get_task)])]"

definition traced_spec :: "(string \<times> json) list" where
  "traced_spec = [(''paths'', JObj traced_paths)]"

text \<open>A client whose awaited call is cancelled.\<close>

definition cancelled_client :: client where
  "cancelled_client req = Inl (Exn CancelledError [])"

section \<open>Exceptions and loops\<close>

lemma bind_exn_Inl [simp]: "bind_exn (Inl e) f = Inl e"
  by (simp add: bind_exn_def)

lemma bind_exn_Inr [simp]: "bind_exn (Inr x) f = f x"
  by (simp add: bind_exn_def)

lemma bind_exn_eq_Inr: "bind_exn m f = Inr y \<longleftrightarrow> (\<exists>x. m = Inr x \<and> f x = Inr y)"
  by (cases m) simp_all

lemma fold_exn_invariant:
  assumes step: "\<And>x s s'. Q s \<Longrightarrow> f x s = Inr s' \<Longrightarrow> Q s'"
  shows "Q s \<Longrightarrow> fold_exn f xs s = Inr s' \<Longrightarrow> Q s'"
proof (induction xs arbitrary: s)
  case Nil
  then show ?case by simp
next
  case (Cons x xs)
  from Cons.prems(2) obtain s1 where s1: "f x s = Inr s1" and rest: "fold_exn f xs s1 = Inr s'"
    by (auto simp: bind_exn_eq_Inr)
  have "Q s1" using step [of s x s1] Cons.prems(1) s1 by simp
  then show ?case using Cons.IH [of s1] rest by simp
qed

lemma fold_exn_visits:
  assumes "x \<in> set xs" and "fold_exn f xs s = Inr s'"
  shows "\<exists>s1 s2 ys. f x s1 = Inr s2 \<and> fold_exn f ys s2 = Inr s' \<and> set ys \<subseteq> set xs"
  using assms
proof (induction xs arbitrary: s)
  case Nil
  then show ?case by simp
next
  case (Cons y xs)
  from Cons.prems(2) obtain s1 where s1: "f y s = Inr s1" and rest: "fold_exn f xs s1 = Inr s'"
    by (auto simp: bind_exn_eq_Inr)
  show ?case
  proof (cases "x = y")
    case True
    then show ?thesis using s1 rest by (intro exI [of _ s] exI [of _ s1] exI [of _ xs]) auto
  next
    case False
    then have "x \<in> set xs" using Cons.prems(1) by simp
    from Cons.IH [OF this rest] obtain a b ys where "f x a = Inr b" "fold_exn f ys b = Inr s'" "set ys \<subseteq> set xs"
      by blast
    then show ?thesis by (intro exI [of _ a] exI [of _ b] exI [of _ ys]) auto
  qed
qed

lemma first_return_Some:
  "first_return f xs = Some r \<Longrightarrow> \<exists>x \<in> set xs. f x = Some r"
  by (induction xs) (auto split: option.splits)

lemma first_return_None:
  "(\<And>x. x \<in> set xs \<Longrightarrow> f x = None) \<Longrightarrow> first_return f xs = None"
  by (induction xs) auto

lemma replace_py_char:
  "replace_py [a] [b] s = map (\<lambda>c. if c = a then b else c) s"
  by (induction s) auto

section \<open>Documents without paths\<close>

text \<open>
  Claim C9. For a loaded document that has no \<open>paths\<close> key, and for one whose \<open>paths\<close>
  collection is empty, \<open>create_tools_from_openapi\<close> returns the empty list; it does not
  fail.
\<close>

theorem create_tools_without_paths:
  assumes "openapi_spec st = Some spec"
  shows "(map_of spec ''paths'' = None \<longrightarrow> create_tools_from_openapi rt st = Inr [])
       \<and> (map_of spec ''paths'' = Some (JObj []) \<longrightarrow> create_tools_from_openapi rt st = Inr [])"
  using assms by (simp add: create_tools_from_openapi_def has_key_def)

text \<open>The document \<open>{"openapi": "3.0.1"}\<close> has no \<open>paths\<close> key and yields no tool.\<close>

theorem create_tools_without_paths_witness:
  "map_of no_paths_spec ''paths'' = None
   \<and> create_tools_from_openapi example_runtime (loaded text_client no_paths_spec) = Inr []"
proof -
  have h: "map_of no_paths_spec ''paths'' = None"
    by (simp add: no_paths_spec_def)
  have s: "openapi_spec (loaded text_client no_paths_spec) = Some no_paths_spec"
    by (simp add: loaded_def)
  show ?thesis
    using create_tools_without_paths [OF s, of example_runtime] h by simp
qed

text \<open>
  Claim C10. \<open>call_api_operation\<close> has no such guard. With the client initialised, a
  non-empty document without a \<open>paths\<close> key makes it raise \<open>KeyError('paths')\<close> for
  every operation identifier and argument bag, an error that is neither the
  not-initialised error nor the operation-not-found error, and no request is sent; the
  empty document \<open>{}\<close> is falsy, so the call reports the not-initialised error although
  a document was loaded. \<open>create_tools_from_openapi\<close> returns the empty list in both
  cases.
\<close>

theorem call_api_operation_without_paths:
  assumes "api_client st = Some cl" and "openapi_spec st = Some spec"
  shows "(spec \<noteq> [] \<and> map_of spec ''paths'' = None \<longrightarrow>
            call_api_operation rt st operation_id arguments = (Inl (Exn KeyError (quoted ''paths'')), [])
            \<and> Exn KeyError (quoted ''paths'') \<noteq> not_initialized
            \<and> Exn KeyError (quoted ''paths'') \<noteq> operation_not_found operation_id
            \<and> create_tools_from_openapi rt st = Inr [])
       \<and> (spec = [] \<longrightarrow>
            call_api_operation rt st operation_id arguments = (Inl not_initialized, [])
            \<and> create_tools_from_openapi rt st = Inr [])"
  using assms
  by (simp add: call_api_operation_def create_tools_from_openapi_def has_key_def
      not_initialized_def operation_not_found_def)

text \<open>Both cases at concrete documents: \<open>{"openapi": "3.0.1"}\<close> and \<open>{}\<close>.\<close>

theorem call_api_operation_without_paths_witness:
  "call_api_operation example_runtime (loaded text_client no_paths_spec) ''getTarget'' []
     = (Inl (Exn KeyError (quoted ''paths'')), [])
   \<and> call_api_operation example_runtime (loaded text_client []) ''getTarget'' []
     = (Inl not_initialized, [])"
proof -
  have a: "api_client (loaded text_client spec) = Some text_client" for spec
    by (simp add: loaded_def)
  have s: "openapi_spec (loaded text_client spec) = Some spec" for spec
    by (simp add: loaded_def)
  have h: "no_paths_spec \<noteq> [] \<and> map_of no_paths_spec ''paths'' = None"
    by (simp add: no_paths_spec_def)
  show ?thesis
    using call_api_operation_without_paths [OF a s, of no_paths_spec example_runtime "''getTarget''" "[]"]
      call_api_operation_without_paths [OF a s, of "[]" example_runtime "''getTarget''" "[]"] h
    by simp
qed

section \<open>Resolution and dispatch\<close>

text \<open>Whenever \<open>call_api_operation\<close> sends a request, it found an operation of the document
  whose \<open>operationId\<close> is the requested name, partitioned the arguments for it without an
  error, and its outcome is the outcome of the dispatch.\<close>

lemma scan_method_Some:
  assumes "scan_method rt cl oid args path item m = Some r"
  shows "(\<exists>e. r = (Inl e, []))
       \<or> (\<exists>operation. py_index item m = Inr operation
              \<and> py_get operation ''operationId'' JNull = Inr (JStr oid)
              \<and> r = invoke rt cl m path operation args)"
  using assms
  by (auto simp: scan_method_def bind_exn_eq_Inr split: sum.splits if_splits)

lemma invoke_cases:
  "(\<exists>e. invoke rt cl m path operation args = (Inl e, []))
   \<or> (\<exists>acc. partition_arguments rt args operation path = Inr acc
          \<and> invoke rt cl m path operation args
              = dispatch cl m (fst acc) (snd acc)
                  (case map_of args ''requestBody'' of Some b \<Rightarrow> b | None \<Rightarrow> JNull))"
  by (cases "partition_arguments rt args operation path") (simp_all add: invoke_def)

lemma call_api_operation_sent:
  assumes cl: "api_client st = Some cl"
    and sent: "snd (call_api_operation rt st oid args) \<noteq> []"
  shows "\<exists>spec paths path item method operation acc.
           openapi_spec st = Some spec \<and> map_of spec ''paths'' = Some (JObj paths)
           \<and> (path, item) \<in> set paths \<and> method \<in> set http_methods
           \<and> py_index item method = Inr operation
           \<and> py_get operation ''operationId'' JNull = Inr (JStr oid)
           \<and> partition_arguments rt args operation path = Inr acc
           \<and> call_api_operation rt st oid args
               = dispatch cl method (fst acc) (snd acc)
                   (case map_of args ''requestBody'' of Some b \<Rightarrow> b | None \<Rightarrow> JNull)"
proof -
  from sent cl obtain spec where spec: "openapi_spec st = Some spec" and ne: "spec \<noteq> []"
    by (auto simp: call_api_operation_def split: option.splits if_splits)
  from sent cl spec ne obtain pv where pv: "map_of spec ''paths'' = Some pv"
    by (auto simp: call_api_operation_def split: option.splits)
  from sent cl spec ne pv obtain paths where paths: "pv = JObj paths"
    by (cases pv) (auto simp: call_api_operation_def)
  let ?scan = "first_return (scan_path rt cl oid args) paths"
  have call: "call_api_operation rt st oid args
                = (case ?scan of Some r \<Rightarrow> r | None \<Rightarrow> (Inl (operation_not_found oid), []))"
    using cl spec ne pv paths by (simp add: call_api_operation_def)
  with sent obtain r where r: "?scan = Some r" and res: "call_api_operation rt st oid args = r"
    by (cases ?scan) auto
  from first_return_Some [OF r] obtain entry where entry: "entry \<in> set paths"
    and sp: "scan_path rt cl oid args entry = Some r" by blast
  obtain path item where pi: "entry = (path, item)" by (cases entry)
  from sp pi have "first_return (scan_method rt cl oid args path item) http_methods = Some r"
    by (simp add: scan_path_def)
  from first_return_Some [OF this] obtain meth where m: "meth \<in> set http_methods"
    and sm: "scan_method rt cl oid args path item meth = Some r" by blast
  from scan_method_Some [OF sm] sent res obtain operation where
    op: "py_index item meth = Inr operation"
      "py_get operation ''operationId'' JNull = Inr (JStr oid)"
      "r = invoke rt cl meth path operation args"
    by auto
  from invoke_cases [of rt cl meth path operation args] sent res op(3)
  obtain acc where acc: "partition_arguments rt args operation path = Inr acc"
    "r = dispatch cl meth (fst acc) (snd acc)
           (case map_of args ''requestBody'' of Some b \<Rightarrow> b | None \<Rightarrow> JNull)"
    by auto
  show ?thesis
    using spec pv paths entry pi m op(1,2) acc res by blast
qed

lemma dispatch_sent:
  assumes "snd (dispatch cl method p q b) = [req]"
  shows "method_request method p q b = Some req
       \<and> fst (dispatch cl method p q b)
           = (case bind_exn (cl req) raise_for_status of
                Inl e \<Rightarrow> Inl (wrap_http_error e)
              | Inr resp \<Rightarrow>
                  Inr (case resp_json resp of Some j \<Rightarrow> j | None \<Rightarrow> JStr (resp_text resp)))"
  using assms by (auto simp: dispatch_def split: option.splits sum.splits)

text \<open>
  Claim C8. Whenever \<open>call_api_operation\<close> sent a request and received a response for it
  whose status is in 200..299, its result is what \<open>response.json()\<close> decoded, and the raw
  \<open>response.text\<close> when decoding failed; in both cases it is a result and not an error.
\<close>

theorem success_response_result:
  assumes "api_client st = Some cl"
    and "snd (call_api_operation rt st operation_id arguments) = [req]"
    and "cl req = Inr resp"
    and "200 \<le> status_code resp" and "status_code resp < 300"
  shows "fst (call_api_operation rt st operation_id arguments)
           = Inr (case resp_json resp of Some j \<Rightarrow> j | None \<Rightarrow> JStr (resp_text resp))"
proof -
  from assms(2) have "snd (call_api_operation rt st operation_id arguments) \<noteq> []" by simp
  from call_api_operation_sent [OF assms(1) this] obtain meth p q b where
    d: "call_api_operation rt st operation_id arguments = dispatch cl meth p q b"
    by blast
  with assms(2) have "snd (dispatch cl meth p q b) = [req]" by simp
  from dispatch_sent [OF this] d assms(3-5) show ?thesis
    by (simp add: raise_for_status_def)
qed

text \<open>A plain-text answer comes back as text, a JSON answer decoded.\<close>

theorem success_response_result_witness:
  "fst (call_api_operation example_runtime (loaded text_client beacons_spec) ''killBeacon''
          [(''id'', JStr ''42'')]) = Inr (JStr ''/beacons/42/kill'')
   \<and> fst (call_api_operation example_runtime (loaded json_client beacons_spec) ''getTarget'' [])
       = Inr (JObj [(''ok'', JBool True)])"
proof -
  let ?kill = "\<lparr>req_method = ''post'', req_path = ''/beacons/42/kill'', req_params = [],
                req_json = Some JNull\<rparr>"
  let ?target = "\<lparr>req_method = ''get'', req_path = ''/targets'', req_params = [],
                  req_json = None\<rparr>"
  have a: "api_client (loaded cl beacons_spec) = Some cl" for cl
    by (simp add: loaded_def)
  have k: "snd (call_api_operation example_runtime (loaded text_client beacons_spec) ''killBeacon''
                  [(''id'', JStr ''42'')]) = [?kill]"
    by code_simp
  have t: "snd (call_api_operation example_runtime (loaded json_client beacons_spec) ''getTarget'' [])
             = [?target]"
    by code_simp
  have rk: "text_client ?kill = Inr \<lparr>status_code = 200, status_error = [], resp_json = None,
                                     resp_text = ''/beacons/42/kill''\<rparr>"
    by (simp add: text_client_def)
  have rt: "json_client ?target = Inr \<lparr>status_code = 200, status_error = [],
                resp_json = Some (JObj [(''ok'', JBool True)]), resp_text = ''{\"ok\": true}''\<rparr>"
    by (simp add: json_client_def)
  show ?thesis
    using success_response_result [OF a k rk] success_response_result [OF a t rt] by simp
qed

section \<open>Tool names\<close>

text \<open>What \<open>create_tools_from_openapi\<close> returns holds the tool of every operation of the
  document, and that tool carries the operation's \<open>operationId\<close>, or the fallback name when
  there is none.\<close>

lemma tools_for_method_result:
  assumes "tools_for_method rt path item m ts = Inr ts'"
  shows "(py_contains m item = Inr False \<and> ts' = ts)
       \<or> (\<exists>operation t. py_contains m item = Inr True \<and> py_index item m = Inr operation
              \<and> tool_of_operation rt m path operation = Inr t \<and> ts' = ts @ [t])"
  using assms
  by (auto simp: tools_for_method_def bind_exn_eq_Inr split: if_splits)

lemma tools_for_method_keeps:
  "t \<in> set ts \<Longrightarrow> tools_for_method rt path item m ts = Inr ts' \<Longrightarrow> t \<in> set ts'"
  using tools_for_method_result [of rt path item m ts ts'] by auto

lemma tools_for_path_keeps:
  assumes "t \<in> set ts" and "tools_for_path rt entry ts = Inr ts'"
  shows "t \<in> set ts'"
  using assms(2) unfolding tools_for_path_def
  by (rule fold_exn_invariant [where Q = "\<lambda>ts. t \<in> set ts", rotated 2])
    (auto intro: tools_for_method_keeps assms(1))

lemma Tool_result:
  assumes "Tool v d schema = Inr t"
  shows "v = JStr (tool_name t) \<and> tool_description t = d \<and> inputSchema t = schema"
  using assms by (cases v) (auto simp: Tool_def)

lemma bind_exn_InrE:
  assumes "bind_exn m f = Inr y"
  obtains x where "m = Inr x" and "f x = Inr y"
  using assms by (cases m) simp_all

lemma tool_of_operation_result:
  assumes "tool_of_operation rt m path (JObj operation) = Inr t"
  shows "\<exists>st1 st2.
           JStr (tool_name t)
             = (case map_of operation ''operationId'' of
                  Some x \<Rightarrow> x | None \<Rightarrow> JStr (fallback_name m path))
           \<and> add_parameters (JObj operation) ([], []) = Inr st1
           \<and> add_request_body (JObj operation) st1 = Inr st2
           \<and> properties (inputSchema t) = fst st2
           \<and> required (inputSchema t) = (if snd st2 \<noteq> [] then Some (snd st2) else None)"
proof -
  note assms [unfolded tool_of_operation_def]
  then obtain operation_id summary description st1 st2 where
    oid: "py_get (JObj operation) ''operationId'' (JStr (fallback_name m path)) = Inr operation_id"
    and st: "add_parameters (JObj operation) ([], []) = Inr st1"
      "add_request_body (JObj operation) st1 = Inr st2"
    and tool: "Tool operation_id
         (py_str rt summary @ [CHR 0x0A, CHR 0x0A] @ ''Path: '' @ upper m @ '' '' @ path
            @ [CHR 0x0A] @ py_str rt description)
         \<lparr>schema_type = ''object'', properties = fst st2,
          required = (if snd st2 \<noteq> [] then Some (snd st2) else None)\<rparr> = Inr t"
    by (elim bind_exn_InrE)
  from oid have name: "operation_id = (case map_of operation ''operationId'' of
                  Some x \<Rightarrow> x | None \<Rightarrow> JStr (fallback_name m path))"
    by simp
  from Tool_result [OF tool] have "operation_id = JStr (tool_name t)"
    and "properties (inputSchema t) = fst st2"
    and "required (inputSchema t) = (if snd st2 \<noteq> [] then Some (snd st2) else None)"
    by simp_all
  with name st show ?thesis by (intro exI [of _ st1] exI [of _ st2]) simp
qed

lemma tool_name_of_operation:
  assumes "tool_of_operation rt m path (JObj operation) = Inr t"
  shows "JStr (tool_name t)
           = (case map_of operation ''operationId'' of
                Some x \<Rightarrow> x | None \<Rightarrow> JStr (fallback_name m path))"
proof -
  note r = tool_of_operation_result [OF assms]
  then obtain st1 st2 where
    "JStr (tool_name t)
             = (case map_of operation ''operationId'' of
                  Some x \<Rightarrow> x | None \<Rightarrow> JStr (fallback_name m path))
           \<and> add_parameters (JObj operation) ([], []) = Inr st1
           \<and> add_request_body (JObj operation) st1 = Inr st2
           \<and> properties (inputSchema t) = fst st2
           \<and> required (inputSchema t) = (if snd st2 \<noteq> [] then Some (snd st2) else None)"
    by (elim exE)
  then show ?thesis by (rule conjunct1)
qed

lemma create_tools_lists_operation:
  assumes created: "create_tools_from_openapi rt st = Inr tools"
    and spec: "openapi_spec st = Some spec" "map_of spec ''paths'' = Some (JObj paths)"
    and entry: "(path, JObj item) \<in> set paths"
    and m: "m \<in> set http_methods" and operation: "map_of item m = Some operation"
  shows "\<exists>t \<in> set tools. tool_of_operation rt m path operation = Inr t"
proof -
  from spec(2) have "spec \<noteq> []" by auto
  with created spec have outer: "fold_exn (tools_for_path rt) paths [] = Inr tools"
    by (simp add: create_tools_from_openapi_def has_key_def)
  from fold_exn_visits [OF entry outer] obtain s1 s2 ys where
    step: "tools_for_path rt (path, JObj item) s1 = Inr s2"
    and rest: "fold_exn (tools_for_path rt) ys s2 = Inr tools"
    by blast
  from step have inner: "fold_exn (tools_for_method rt path (JObj item)) http_methods s1 = Inr s2"
    by (simp add: tools_for_path_def)
  from fold_exn_visits [OF m inner] obtain a b zs where
    one: "tools_for_method rt path (JObj item) m a = Inr b"
    and more: "fold_exn (tools_for_method rt path (JObj item)) zs b = Inr s2"
    by blast
  from operation have present: "py_contains m (JObj item) = Inr True"
    and found: "py_index (JObj item) m = Inr operation"
    by (simp_all add: has_key_def)
  from tools_for_method_result [OF one] present found obtain t where
    t: "tool_of_operation rt m path operation = Inr t" and b: "b = a @ [t]"
    by (elim disjE exE conjE) simp_all
  from b have tb: "t \<in> set b" by simp
  have keep_m: "\<And>x s s'. t \<in> set s \<Longrightarrow> tools_for_method rt path (JObj item) x s = Inr s'
                  \<Longrightarrow> t \<in> set s'"
    by (rule tools_for_method_keeps)
  have keep_p: "\<And>x s s'. t \<in> set s \<Longrightarrow> tools_for_path rt x s = Inr s' \<Longrightarrow> t \<in> set s'"
    by (rule tools_for_path_keeps)
  from fold_exn_invariant [where Q = "\<lambda>ts. t \<in> set ts", OF keep_m tb more]
  have "t \<in> set s2" .
  from fold_exn_invariant [where Q = "\<lambda>ts. t \<in> set ts", OF keep_p this rest]
  have "t \<in> set tools" .
  with t show ?thesis by blast
qed

text \<open>
  Claim C1, as the code has it. For every operation of the document that
  \<open>create_tools_from_openapi\<close> lists: when the operation has no \<open>operationId\<close>, its tool is
  named by the method, an underscore, and the path with every slash replaced by an
  underscore, and nothing else replaced (the braces of a placeholder stay); when its
  \<open>operationId\<close> is a string, the tool has exactly that name.
\<close>

theorem tool_name_rule:
  assumes "create_tools_from_openapi rt st = Inr tools"
    and "openapi_spec st = Some spec" and "map_of spec ''paths'' = Some (JObj paths)"
    and "(path, JObj item) \<in> set paths"
    and "m \<in> set http_methods" and "map_of item m = Some (JObj operation)"
  shows "\<exists>t \<in> set tools. tool_of_operation rt m path (JObj operation) = Inr t
           \<and> (map_of operation ''operationId'' = None \<longrightarrow>
                tool_name t = m @ ''_'' @ map (\<lambda>c. if c = CHR ''/'' then CHR ''_'' else c) path)
           \<and> (\<forall>i. map_of operation ''operationId'' = Some (JStr i) \<longrightarrow> tool_name t = i)"
proof -
  from create_tools_lists_operation [OF assms] obtain t where
    t: "t \<in> set tools" "tool_of_operation rt m path (JObj operation) = Inr t"
    by blast
  from tool_name_of_operation [OF t(2)]
  have "map_of operation ''operationId'' = None \<longrightarrow>
          tool_name t = m @ ''_'' @ map (\<lambda>c. if c = CHR ''/'' then CHR ''_'' else c) path"
    and "\<forall>i. map_of operation ''operationId'' = Some (JStr i) \<longrightarrow> tool_name t = i"
    by (auto simp: fallback_name_def replace_py_char)
  with t show ?thesis by - (rule bexI [of _ t], simp_all)
qed

text \<open>The operation without identifier at \<open>GET /beacons/{id}\<close> is listed as
  \<open>get__beacons_{id}\<close>; the operation \<open>getTarget\<close> keeps its name.\<close>

theorem tool_name_rule_witness:
  "create_tools_from_openapi example_runtime (loaded text_client beacons_spec) = Inr beacons_tools
   \<and> (\<exists>t \<in> set beacons_tools. tool_name t = ''get__beacons_{id}'')
   \<and> (\<exists>t \<in> set beacons_tools. tool_name t = ''getTarget'')"
proof -
  let ?st = "loaded text_client beacons_spec"
  have c: "create_tools_from_openapi example_runtime ?st = Inr beacons_tools"
    by code_simp
  have s: "openapi_spec ?st = Some beacons_spec"
    by (simp add: loaded_def)
  have p: "map_of beacons_spec ''paths'' = Some (JObj beacons_paths)"
    by (simp add: beacons_spec_def)
  have g: "''get'' \<in> set http_methods"
    by (simp add: http_methods_def)
  have e1: "(''/beacons/{id}'', JObj [(''get'', JObj [])]) \<in> set beacons_paths"
    and e2: "(''/targets'', JObj [(''get'', JObj [(''operationId'', JStr ''getTarget'')])])
               \<in> set beacons_paths"
    by (simp_all add: beacons_paths_def)
  have o1: "map_of [(''get'', JObj [])] ''get'' = Some (JObj [])"
    and o2: "map_of [(''get'', JObj [(''operationId'', JStr ''getTarget'')])] ''get''
               = Some (JObj [(''operationId'', JStr ''getTarget'')])"
    by simp_all
  from tool_name_rule [OF c s p e1 g o1]
  have "\<exists>t \<in> set beacons_tools. tool_name t = ''get__beacons_{id}''"
    by auto
  moreover from tool_name_rule [OF c s p e2 g o2]
  have "\<exists>t \<in> set beacons_tools. tool_name t = ''getTarget''"
    by auto
  ultimately show ?thesis using c by blast
qed

text \<open>The name the claim gives for \<open>GET /beacons/{id}\<close>, \<open>get__beacons__id_\<close>, is not
  what is produced: \<open>path.replace('/', '_')\<close> leaves the braces alone.\<close>

theorem fallback_name_keeps_braces:
  "map_sum id (map tool_name)
     (create_tools_from_openapi example_runtime (loaded text_client beacons_spec))
     = Inr [''get__beacons_{id}'', ''getTarget'', ''killBeacon'']
   \<and> ''get__beacons_{id}'' \<noteq> ''get__beacons__id_''"
  by code_simp

section \<open>Unknown names\<close>

text \<open>In a document of the expected shape in which no operation has the requested name
  as its \<open>operationId\<close>, the scan runs to its end and the call raises the
  operation-not-found error, naming the identifier, without sending a request.\<close>

lemma operations_of_member:
  assumes "map_of item m = Some operation" and "m \<in> set http_methods"
  shows "operation \<in> set (operations_of (JObj item))"
  using assms by (force simp: operations_of_def List.map_filter_def)

lemma scan_method_skips:
  assumes "is_dict item" and "list_all is_dict (operations_of item)"
    and "\<not> list_ex (\<lambda>operation. py_get operation ''operationId'' JNull = Inr (JStr oid))
             (operations_of item)"
    and "m \<in> set http_methods"
  shows "scan_method rt cl oid args path item m = None"
proof -
  from assms(1) obtain kvs where item: "item = JObj kvs" by (cases item) auto
  show ?thesis
  proof (cases "map_of kvs m")
    case None
    then show ?thesis by (simp add: scan_method_def item has_key_def)
  next
    case (Some operation)
    from operations_of_member [OF Some assms(4)] have mem: "operation \<in> set (operations_of item)"
      by (simp add: item)
    with assms(2) have "is_dict operation" by (simp add: list_all_iff)
    then obtain ov where ov: "operation = JObj ov" by (cases operation) auto
    from mem assms(3) have "py_get operation ''operationId'' JNull \<noteq> Inr (JStr oid)"
      by (auto simp: list_ex_iff)
    then show ?thesis using Some ov by (simp add: scan_method_def item has_key_def)
  qed
qed

lemma call_api_operation_not_found:
  assumes "api_client st = Some cl" and "openapi_spec st = Some spec"
    and "map_of spec ''paths'' = Some (JObj paths)"
    and "well_formed_paths paths" and "\<not> declares paths oid"
  shows "call_api_operation rt st oid args = (Inl (operation_not_found oid), [])"
proof -
  have "scan_path rt cl oid args entry = None" if "entry \<in> set paths" for entry
  proof -
    from that assms(4) have wf: "is_dict (snd entry)" "list_all is_dict (operations_of (snd entry))"
      by (auto simp: well_formed_paths_def list_all_iff)
    from that assms(5)
    have no: "\<not> list_ex (\<lambda>operation. py_get operation ''operationId'' JNull = Inr (JStr oid))
                  (operations_of (snd entry))"
      by (auto simp: declares_def list_ex_iff)
    show ?thesis
      unfolding scan_path_def
      by (rule first_return_None) (rule scan_method_skips [OF wf no])
  qed
  then have "first_return (scan_path rt cl oid args) paths = None"
    by (rule first_return_None)
  moreover from assms(3) have "spec \<noteq> []" by auto
  ultimately show ?thesis
    using assms(1-3) by (simp add: call_api_operation_def)
qed

text \<open>
  Claim C6 fails at a loaded document that has no \<open>paths\<close> key: no operation has the
  requested identifier, yet line 214 indexes \<open>openapi_spec["paths"]\<close> without the guard
  that \<open>create_tools_from_openapi\<close> has at line 136, so the call raises
  \<open>KeyError('paths')\<close>, which \<open>call_tool\<close> reports as \<open>Error: 'paths'\<close>, and not the
  operation-not-found error.
\<close>

theorem call_api_operation_no_paths_key_error:
  "call_api_operation example_runtime (loaded text_client no_paths_spec) ''getTarget'' []
     = (Inl (Exn KeyError (quoted ''paths'')), [])
   \<and> call_tool example_runtime (loaded text_client no_paths_spec) ''getTarget'' None
     = (Inr [\<lparr>content_type = ''text'', content_text = ''Error: '' @ quoted ''paths''\<rparr>], [])
   \<and> Exn KeyError (quoted ''paths'') \<noteq> operation_not_found ''getTarget''
   \<and> create_tools_from_openapi example_runtime (loaded text_client no_paths_spec) = Inr []"
  by code_simp

text \<open>
  Claim C3, as the code has it. An operation without \<open>operationId\<close> is never matched by
  the scan, whatever name is requested. In a document of the expected shape, with the
  client initialised, calling the fallback name under which the operation is listed ends
  in the operation-not-found error and sends no request, provided no operation of the
  document declares that same name as its \<open>operationId\<close>.
\<close>

theorem fallback_name_not_found:
  assumes "api_client st = Some cl" and "openapi_spec st = Some spec"
    and "map_of spec ''paths'' = Some (JObj paths)" and "well_formed_paths paths"
    and "(path, JObj item) \<in> set paths" and "m \<in> set http_methods"
    and "map_of item m = Some (JObj operation)" and "map_of operation ''operationId'' = None"
    and "\<not> declares paths (fallback_name m path)"
  shows "(\<forall>oid. scan_method rt cl oid arguments path (JObj item) m = None)
       \<and> call_api_operation rt st (fallback_name m path) arguments
           = (Inl (operation_not_found (fallback_name m path)), [])"
proof
  show "\<forall>oid. scan_method rt cl oid arguments path (JObj item) m = None"
    using assms(7,8) by (simp add: scan_method_def has_key_def)
  show "call_api_operation rt st (fallback_name m path) arguments
           = (Inl (operation_not_found (fallback_name m path)), [])"
    using assms(1-4,9) by (rule call_api_operation_not_found)
qed

text \<open>The tool \<open>get__beacons_{id}\<close> of the example document cannot be called.\<close>

theorem fallback_name_not_found_witness:
  "call_api_operation example_runtime (loaded text_client beacons_spec) ''get__beacons_{id}'' []
     = (Inl (Exn Exception ''Operation get__beacons_{id} not found in OpenAPI spec''), [])"
proof -
  have a: "api_client (loaded text_client beacons_spec) = Some text_client"
    and s: "openapi_spec (loaded text_client beacons_spec) = Some beacons_spec"
    by (simp_all add: loaded_def)
  have p: "map_of beacons_spec ''paths'' = Some (JObj beacons_paths)"
    by (simp add: beacons_spec_def)
  have wf: "well_formed_paths beacons_paths"
    by code_simp
  have e: "(''/beacons/{id}'', JObj [(''get'', JObj [])]) \<in> set beacons_paths"
    by (simp add: beacons_paths_def)
  have g: "''get'' \<in> set http_methods"
    by (simp add: http_methods_def)
  have o: "map_of [(''get'', JObj [])] ''get'' = Some (JObj [])"
    and i: "map_of ([] :: (string \<times> json) list) ''operationId'' = None"
    by simp_all
  have n: "fallback_name ''get'' ''/beacons/{id}'' = ''get__beacons_{id}''"
    by code_simp
  have d: "\<not> declares beacons_paths (fallback_name ''get'' ''/beacons/{id}'')"
    by code_simp
  from fallback_name_not_found [OF a s p wf e g o i d, of example_runtime "[]"]
  show ?thesis by (simp add: n operation_not_found_def)
qed

text \<open>Without the proviso the claim fails: \<open>GET /a\<close> has no identifier and is listed as
  \<open>get__a\<close>, \<open>GET /b\<close> declares \<open>get__a\<close>; calling \<open>get__a\<close> matches \<open>GET /b\<close> and sends
  its request.\<close>

theorem fallback_name_collision:
  "create_tools_from_openapi example_runtime (loaded text_client collision_spec)
     = Inr [\<lparr>tool_name = ''get__a'',
              tool_description = [CHR 0x0A, CHR 0x0A] @ ''Path: GET /a'' @ [CHR 0x0A],
              inputSchema = \<lparr>schema_type = ''object'', properties = [], required = None\<rparr>\<rparr>,
            \<lparr>tool_name = ''get__a'',
              tool_description = [CHR 0x0A, CHR 0x0A] @ ''Path: GET /b'' @ [CHR 0x0A],
              inputSchema = \<lparr>schema_type = ''object'', properties = [], required = None\<rparr>\<rparr>]
   \<and> call_api_operation example_runtime (loaded text_client collision_spec) ''get__a'' []
     = (Inr (JStr ''/b''),
        [\<lparr>req_method = ''get'', req_path = ''/b'', req_params = [], req_json = None\<rparr>])"
  by code_simp

section \<open>The input schema\<close>

text \<open>The properties of a tool's input schema only grow: a parameter's name stays a key
  once it is set, through the later parameters and the request body.\<close>

lemma key_norm_str: "key_norm k = JStr n \<longleftrightarrow> k = JStr n"
  by (cases k) auto

lemma dict_set_keeps_key: "k \<in> fst ` set d \<Longrightarrow> k \<in> fst ` set (dict_set k' v d)"
  by (induction d) auto

lemma dict_set_adds_str: "JStr n \<in> fst ` set (dict_set (JStr n) v d)"
  by (induction d) (auto simp: key_norm_str)

lemma add_parameter_result:
  assumes "add_parameter param st = Inr st'"
  shows "\<exists>name v. py_get param ''name'' JNull = Inr name \<and> fst st' = dict_set name v (fst st)"
proof -
  note assms [unfolded add_parameter_def]
  then obtain name v props where
    "py_get param ''name'' JNull = Inr name" and "py_setitem name v (fst st) = Inr props"
    and "fst st' = props"
    by (elim bind_exn_InrE) auto
  then have "py_get param ''name'' JNull = Inr name" and "fst st' = dict_set name v (fst st)"
    by (auto simp: py_setitem_def split: if_splits)
  then show ?thesis by blast
qed

lemma add_parameter_keeps_key:
  assumes "k \<in> fst ` set (fst st)" and "add_parameter param st = Inr st'"
  shows "k \<in> fst ` set (fst st')"
proof -
  from add_parameter_result [OF assms(2)] obtain name v where
    "fst st' = dict_set name v (fst st)" by blast
  with assms(1) show ?thesis by (simp add: dict_set_keeps_key)
qed

lemma add_parameter_adds_name:
  assumes "map_of p ''name'' = Some (JStr n)" and "add_parameter (JObj p) st = Inr st'"
  shows "JStr n \<in> fst ` set (fst st')"
proof -
  from add_parameter_result [OF assms(2)] obtain name v where
    name: "py_get (JObj p) ''name'' JNull = Inr name"
    and props: "fst st' = dict_set name v (fst st)" by blast
  from name assms(1) have "name = JStr n" by simp
  with props show ?thesis by (simp add: dict_set_adds_str)
qed

lemma add_parameters_lists_name:
  assumes "map_of operation ''parameters'' = Some (JList params)" and "JObj p \<in> set params"
    and "map_of p ''name'' = Some (JStr n)"
    and "add_parameters (JObj operation) st = Inr st'"
  shows "JStr n \<in> fst ` set (fst st')"
proof -
  from assms(1,4) have run: "fold_exn add_parameter params st = Inr st'"
    by (simp add: add_parameters_def has_key_def)
  from fold_exn_visits [OF assms(2) run] obtain s1 s2 ys where
    step: "add_parameter (JObj p) s1 = Inr s2" and rest: "fold_exn add_parameter ys s2 = Inr st'"
    by blast
  from add_parameter_adds_name [OF assms(3) step] have in2: "JStr n \<in> fst ` set (fst s2)" .
  have keep: "\<And>x s s'. JStr n \<in> fst ` set (fst s) \<Longrightarrow> add_parameter x s = Inr s'
                \<Longrightarrow> JStr n \<in> fst ` set (fst s')"
    by (rule add_parameter_keeps_key)
  from fold_exn_invariant [where Q = "\<lambda>s. JStr n \<in> fst ` set (fst s)", OF keep in2 rest]
  show ?thesis .
qed

lemma add_content_result:
  assumes "add_content request_body content st = Inr st'"
  shows "st' = st
       \<or> (sublist ''application/json'' (fst content)
            \<and> py_contains ''schema'' (snd content) = Inr True
            \<and> (\<exists>req. py_get request_body ''required'' (JBool False) = Inr req
                 \<and> st' = (dict_set (JStr ''requestBody'') body_property (fst st),
                           if truthy req then snd st @ [JStr ''requestBody''] else snd st)))"
proof -
  note assms [unfolded add_content_def]
  then obtain json_schema where
    js: "(if sublist ''application/json'' (fst content)
          then py_contains ''schema'' (snd content) else Inr False) = Inr json_schema"
    and r: "(if json_schema then
         bind_exn (py_setitem (JStr ''requestBody'') body_property (fst st)) (\<lambda>properties.
         bind_exn (py_get request_body ''required'' (JBool False)) (\<lambda>req.
         Inr (properties, if truthy req then snd st @ [JStr ''requestBody''] else snd st)))
       else Inr st) = Inr st'"
    by (elim bind_exn_InrE)
  show ?thesis
  proof (cases json_schema)
    case False
    with r show ?thesis by simp
  next
    case True
    with js have q: "sublist ''application/json'' (fst content)"
      "py_contains ''schema'' (snd content) = Inr True"
      by (auto split: if_splits)
    from r True obtain properties req where
      "py_setitem (JStr ''requestBody'') body_property (fst st) = Inr properties"
      and "py_get request_body ''required'' (JBool False) = Inr req"
      and "st' = (properties, if truthy req then snd st @ [JStr ''requestBody''] else snd st)"
      by (auto elim!: bind_exn_InrE)
    with q show ?thesis by (auto simp: py_setitem_def)
  qed
qed

lemma add_content_keeps_key:
  assumes "k \<in> fst ` set (fst st)" and "add_content request_body content st = Inr st'"
  shows "k \<in> fst ` set (fst st')"
proof -
  from add_content_result [OF assms(2)]
  have "fst st' = fst st \<or> fst st' = dict_set (JStr ''requestBody'') body_property (fst st)"
    by auto
  with assms(1) show ?thesis by (elim disjE) (simp_all add: dict_set_keeps_key)
qed

lemma add_request_body_keeps_key:
  assumes "k \<in> fst ` set (fst st)" and "add_request_body operation st = Inr st'"
  shows "k \<in> fst ` set (fst st')"
proof -
  note assms(2) [unfolded add_request_body_def]
  then obtain declared where
    r: "(if declared then
         bind_exn (py_index operation ''requestBody'') (\<lambda>request_body.
         bind_exn (py_contains ''content'' request_body) (\<lambda>has_content.
           if has_content then
             bind_exn (py_index request_body ''content'') (\<lambda>content.
             bind_exn (py_items content) (\<lambda>items.
               fold_exn (add_content request_body) items st))
           else Inr st))
       else Inr st) = Inr st'"
    by (elim bind_exn_InrE)
  show ?thesis
  proof (cases "st' = st")
    case True
    with assms(1) show ?thesis by simp
  next
    case False
    with r obtain request_body items where
      run: "fold_exn (add_content request_body) items st = Inr st'"
      by (auto elim!: bind_exn_InrE split: if_splits)
    have keep: "\<And>x s s'. k \<in> fst ` set (fst s) \<Longrightarrow> add_content request_body x s = Inr s'
                  \<Longrightarrow> k \<in> fst ` set (fst s')"
      by (rule add_content_keeps_key)
    from fold_exn_invariant [where Q = "\<lambda>s. k \<in> fst ` set (fst s)", OF keep assms(1) run]
    show ?thesis .
  qed
qed



section \<open>The request of a resolved operation\<close>

text \<open>In a paths collection of the expected shape the scan of \<open>call_api_operation\<close> ends at
  the first operation, in the order of the scan, whose \<open>operationId\<close> is the requested
  name; for declared parameters of the expected shape the partition raises nothing and
  computes what the specification says, and the request is sent exactly once.\<close>

lemma first_return_append:
  "first_return f (xs @ ys) = (case first_return f xs of Some r \<Rightarrow> Some r | None \<Rightarrow> first_return f ys)"
  by (induction xs) (auto split: option.splits)

lemma first_return_concat:
  "first_return (\<lambda>x. first_return g (F x)) xs = first_return g (concat (map F xs))"
  by (induction xs) (auto simp: first_return_append split: option.splits)

lemma first_return_map_filter:
  "first_return (\<lambda>x. case h x of None \<Rightarrow> None | Some y \<Rightarrow> g y) xs
     = first_return g (List.map_filter h xs)"
  by (induction xs) (auto split: option.splits)

lemma first_return_find:
  "first_return (\<lambda>x. if P x then Some (k x) else None) xs = map_option k (find P xs)"
  by (induction xs) auto

lemma first_return_cong:
  "\<forall>x \<in> set xs. f x = g x \<Longrightarrow> first_return f xs = first_return g xs"
  by (induction xs) (simp_all split: option.splits)


lemma scan_method_dict:
  "scan_method rt cl oid args path (JObj item) m
     = (case map_of item m of
          None \<Rightarrow> None
        | Some operation \<Rightarrow>
            (case py_get operation ''operationId'' JNull of
               Inl e \<Rightarrow> Some (Inl e, [])
             | Inr v \<Rightarrow> if v = JStr oid then Some (invoke rt cl m path operation args) else None))"
  by (cases "map_of item m")
    (simp_all add: scan_method_def has_key_def bind_exn_def split: sum.splits)

lemma scan_method_resolves:
  assumes "list_all is_dict (operations_of (JObj item))" and "m \<in> set http_methods"
  shows "scan_method rt cl oid args path (JObj item) m
           = (case map_option (\<lambda>operation. (path, m, operation)) (map_of item m) of
                None \<Rightarrow> None
              | Some located \<Rightarrow>
                  if has_id oid located
                  then Some (invoke rt cl (fst (snd located)) (fst located) (snd (snd located)) args)
                  else None)"
proof (cases "map_of item m")
  case None
  then show ?thesis by (simp add: scan_method_dict)
next
  case (Some operation)
  from operations_of_member [OF Some assms(2)] assms(1) have "is_dict operation"
    by (simp add: list_all_iff)
  then obtain ov where "operation = JObj ov" by (cases operation) auto
  with Some show ?thesis by (simp add: scan_method_dict has_id_def)
qed

lemma scan_path_resolves:
  assumes "is_dict (snd entry)" and "list_all is_dict (operations_of (snd entry))"
  shows "scan_path rt cl oid args entry
           = first_return (\<lambda>located. if has_id oid located
                 then Some (invoke rt cl (fst (snd located)) (fst located) (snd (snd located)) args)
                 else None) (operations_at entry)"
proof -
  from assms(1) obtain item where item: "snd entry = JObj item" by (cases "snd entry") auto
  let ?g = "\<lambda>located. if has_id oid located
                 then Some (invoke rt cl (fst (snd located)) (fst located) (snd (snd located)) args)
                 else None"
  let ?h = "\<lambda>m. map_option (\<lambda>operation. (fst entry, m, operation)) (map_of item m)"
  have "scan_path rt cl oid args entry
          = first_return (\<lambda>m. case ?h m of None \<Rightarrow> None | Some located \<Rightarrow> ?g located) http_methods"
    unfolding scan_path_def item
    by (rule first_return_cong) (use assms(2) item in \<open>simp add: scan_method_resolves\<close>)
  also have "\<dots> = first_return ?g (List.map_filter ?h http_methods)"
    by (rule first_return_map_filter)
  finally show ?thesis by (simp add: operations_at_def item)
qed

lemma scan_resolves:
  assumes "well_formed_paths paths"
  shows "first_return (scan_path rt cl oid args) paths
           = map_option (\<lambda>located. invoke rt cl (fst (snd located)) (fst located) (snd (snd located)) args)
               (find (has_id oid) (all_operations paths))"
proof -
  let ?g = "\<lambda>located. if has_id oid located
                 then Some (invoke rt cl (fst (snd located)) (fst located) (snd (snd located)) args)
                 else None"
  have "first_return (scan_path rt cl oid args) paths
          = first_return (\<lambda>entry. first_return ?g (operations_at entry)) paths"
    by (rule first_return_cong)
      (use assms in \<open>simp add: well_formed_paths_def list_all_iff scan_path_resolves\<close>)
  also have "\<dots> = first_return ?g (all_operations paths)"
    by (simp add: first_return_concat all_operations_def)
  also have "\<dots> = map_option (\<lambda>located. invoke rt cl (fst (snd located)) (fst located)
                        (snd (snd located)) args) (find (has_id oid) (all_operations paths))"
    by (rule first_return_find)
  finally show ?thesis .
qed

lemma call_api_operation_resolved:
  assumes "api_client st = Some cl" and "openapi_spec st = Some spec"
    and "map_of spec ''paths'' = Some (JObj paths)" and "well_formed_paths paths"
    and "find (has_id oid) (all_operations paths) = Some (path, m, operation)"
  shows "call_api_operation rt st oid args = invoke rt cl m path operation args"
proof -
  from assms(3) have "spec \<noteq> []" by auto
  with assms(1-3) have "call_api_operation rt st oid args
      = (case first_return (scan_path rt cl oid args) paths of
           Some r \<Rightarrow> r | None \<Rightarrow> (Inl (operation_not_found oid), []))"
    by (simp add: call_api_operation_def)
  then show ?thesis
    by (simp add: scan_resolves [OF assms(4)] assms(5))
qed

lemma all_operations_member:
  assumes "(path, m, operation) \<in> set (all_operations paths)"
  shows "\<exists>item. (path, JObj item) \<in> set paths \<and> m \<in> set http_methods
           \<and> map_of item m = Some operation"
proof -
  from assms obtain entry where entry: "entry \<in> set paths"
    and mem: "(path, m, operation) \<in> set (operations_at entry)"
    by (auto simp: all_operations_def)
  from mem obtain item where item: "snd entry = JObj item"
    by (cases "snd entry") (auto simp: operations_at_def)
  from mem item have "fst entry = path" "m \<in> set http_methods" "map_of item m = Some operation"
    by (auto simp: operations_at_def List.map_filter_def)
  with entry item show ?thesis
    by (metis prod.collapse)
qed

lemma resolved_member:
  assumes "find (has_id oid) (all_operations paths) = Some (path, m, operation)"
  shows "(path, m, operation) \<in> set (all_operations paths)"
  using assms by (auto simp: find_Some_iff in_set_conv_nth)


lemma partition_step_well_formed:
  assumes "well_formed_parameter param"
  shows "partition_step rt arguments param (path, query)
           = Inr (case located_argument ''path'' arguments param of
                    Some (n, v) \<Rightarrow> replace_py (''{'' @ n @ ''}'') (py_str rt v) path
                  | None \<Rightarrow> path,
                  case located_argument ''query'' arguments param of
                    Some (n, v) \<Rightarrow> AList.update n v query
                  | None \<Rightarrow> query)"
proof -
  from assms obtain kvs where param: "param = JObj kvs" by (cases param) auto
  show ?thesis
  proof (cases "map_of kvs ''name''")
    case None
    then show ?thesis
      by (simp add: param partition_step_def located_argument_def)
  next
    case (Some name)
    with assms param have h: "hashable name" by simp
    show ?thesis
    proof (cases name)
      case (JStr n)
      show ?thesis
      proof (cases "map_of arguments n")
        case None
        with Some JStr show ?thesis
          by (simp add: param partition_step_def located_argument_def)
      next
        case (Some v)
        with \<open>map_of kvs ''name'' = Some name\<close> JStr show ?thesis
          by (cases "map_of kvs ''in''")
            (auto simp: param partition_step_def located_argument_def)
      qed
    qed (use Some h in \<open>simp_all add: param partition_step_def located_argument_def\<close>)
  qed
qed

lemma fold_partition_step:
  assumes "list_all well_formed_parameter params"
  shows "fold_exn (partition_step rt arguments) params (path, query)
           = Inr (substituted_path rt arguments params path, query_parameters arguments params query)"
  using assms
proof (induction params arbitrary: path query)
  case Nil
  show ?case by simp
next
  case (Cons param params)
  from Cons.prems have wf: "well_formed_parameter param"
    and rest: "list_all well_formed_parameter params"
    by simp_all
  show ?case
    by (simp add: partition_step_well_formed [OF wf] Cons.IH [OF rest])
qed

lemma partition_arguments_well_formed:
  assumes "parameters_of operation = Some params" and "list_all well_formed_parameter params"
  shows "partition_arguments rt arguments operation path
           = Inr (substituted_path rt arguments params path, query_parameters arguments params [])"
proof -
  from assms(1) obtain kvs where operation: "operation = JObj kvs"
    by (cases operation) (auto simp: parameters_of_def)
  show ?thesis
  proof (cases "map_of kvs ''parameters''")
    case None
    with assms(1) have "params = []" by (simp add: parameters_of_def operation)
    with None show ?thesis
      by (simp add: partition_arguments_def operation has_key_def)
  next
    case (Some v)
    with assms(1) have "v = JList params"
      by (cases v) (simp_all add: parameters_of_def operation)
    with Some show ?thesis
      by (simp add: partition_arguments_def operation has_key_def fold_partition_step [OF assms(2)])
  qed
qed

lemma dispatch_request:
  assumes "m \<in> set http_methods"
  shows "snd (dispatch cl m path query body)
           = [\<lparr>req_method = m, req_path = path, req_params = query,
                req_json = (if m = ''get'' \<or> m = ''delete'' then None else Some body)\<rparr>]"
proof -
  from assms have "method_request m path query body
      = Some \<lparr>req_method = m, req_path = path, req_params = query,
                req_json = (if m = ''get'' \<or> m = ''delete'' then None else Some body)\<rparr>"
    by (auto simp: http_methods_def method_request_def)
  then show ?thesis
    by (simp add: dispatch_def split: sum.splits)
qed

lemma call_api_operation_request:
  assumes "api_client st = Some cl" and "openapi_spec st = Some spec"
    and "map_of spec ''paths'' = Some (JObj paths)" and "well_formed_paths paths"
    and "find (has_id oid) (all_operations paths) = Some (path, m, operation)"
    and "parameters_of operation = Some params" and "list_all well_formed_parameter params"
  shows "snd (call_api_operation rt st oid arguments)
           = [\<lparr>req_method = m, req_path = substituted_path rt arguments params path,
                req_params = query_parameters arguments params [],
                req_json = body_argument m arguments\<rparr>]"
proof -
  from all_operations_member [OF resolved_member [OF assms(5)]]
  have m: "m \<in> set http_methods" by blast
  have "call_api_operation rt st oid arguments = invoke rt cl m path operation arguments"
    using assms(1-5) by (rule call_api_operation_resolved)
  then show ?thesis
    by (simp add: invoke_def partition_arguments_well_formed [OF assms(6,7)]
        dispatch_request [OF m] body_argument_def)
qed

lemma substituted_path_append:
  "substituted_path rt arguments (xs @ ys) path
     = substituted_path rt arguments ys (substituted_path rt arguments xs path)"
  by (induction xs arbitrary: path) simp_all

lemma query_parameters_append:
  "query_parameters arguments (xs @ ys) query
     = query_parameters arguments ys (query_parameters arguments xs query)"
  by (induction xs arbitrary: query) simp_all

lemma well_formed_named:
  "map_of p ''name'' = Some (JStr n) \<Longrightarrow> well_formed_parameter (JObj p)"
  by simp



section \<open>Parameters of other locations\<close>

lemma parameters_of_list:
  assumes "parameters_of operation = Some params" and "params \<noteq> []"
  shows "\<exists>kvs. operation = JObj kvs \<and> map_of kvs ''parameters'' = Some (JList params)"
proof -
  from assms(1) obtain kvs where operation: "operation = JObj kvs"
    by (cases operation) (auto simp: parameters_of_def)
  show ?thesis
  proof (cases "map_of kvs ''parameters''")
    case None
    with assms show ?thesis by (simp add: parameters_of_def operation)
  next
    case (Some v)
    with assms(1) have "v = JList params"
      by (cases v) (simp_all add: parameters_of_def operation)
    with Some operation show ?thesis by simp
  qed
qed

lemma tool_lists_parameter:
  assumes "map_of kvs ''parameters'' = Some (JList params)" and "JObj p \<in> set params"
    and "map_of p ''name'' = Some (JStr n)"
    and "tool_of_operation rt m path (JObj kvs) = Inr t"
  shows "JStr n \<in> fst ` set (properties (inputSchema t))"
proof -
  from tool_of_operation_result [OF assms(4)] obtain st1 st2 where
    s1: "add_parameters (JObj kvs) ([], []) = Inr st1"
    and s2: "add_request_body (JObj kvs) st1 = Inr st2"
    and pr: "properties (inputSchema t) = fst st2"
    by blast
  from add_parameters_lists_name [OF assms(1-3) s1] have "JStr n \<in> fst ` set (fst st1)" .
  from add_request_body_keeps_key [OF this s2] pr show ?thesis by simp
qed

text \<open>
  Claim C2, as the code has it. Let a call resolve to an operation of a well-formed
  document that declares a named parameter whose location tag is neither \<open>path\<close> nor
  \<open>query\<close>, its other parameters being well-formed. The request \<open>call_api_operation\<close>
  sends, and the result of \<open>partition_arguments\<close>, are those of the declared parameters
  without that one: it is neither substituted into the path nor added to the query
  parameters. \<open>create_tools_from_openapi\<close> never reads the location tag: in the list it
  returns, the operation's tool has the parameter among the properties of its input
  schema.
\<close>

theorem other_location_parameter:
  assumes "api_client st = Some cl" and "openapi_spec st = Some spec"
    and "map_of spec ''paths'' = Some (JObj paths)" and "well_formed_paths paths"
    and "find (has_id operation_id) (all_operations paths) = Some (path, m, operation)"
    and "parameters_of operation = Some (before @ JObj p # after)"
    and "list_all well_formed_parameter (before @ after)"
    and "map_of p ''name'' = Some (JStr n)" and "map_of p ''in'' = Some loc"
    and "loc \<noteq> JStr ''path''" and "loc \<noteq> JStr ''query''"
  shows "snd (call_api_operation rt st operation_id arguments)
           = [\<lparr>req_method = m,
                req_path = substituted_path rt arguments (before @ after) path,
                req_params = query_parameters arguments (before @ after) [],
                req_json = body_argument m arguments\<rparr>]
       \<and> partition_arguments rt arguments operation path
           = Inr (substituted_path rt arguments (before @ after) path,
                  query_parameters arguments (before @ after) [])
       \<and> (\<forall>tools. create_tools_from_openapi rt st = Inr tools \<longrightarrow>
            (\<exists>t \<in> set tools. tool_of_operation rt m path operation = Inr t
               \<and> JStr n \<in> fst ` set (properties (inputSchema t))))"
proof (intro conjI allI impI)
  from assms(7,8) have wf: "list_all well_formed_parameter (before @ JObj p # after)"
    by simp
  from assms(9-11) have none: "located_argument ''path'' arguments (JObj p) = None"
    "located_argument ''query'' arguments (JObj p) = None"
    by (simp_all add: located_argument_def)
  have same: "substituted_path rt arguments (before @ JObj p # after) path
                = substituted_path rt arguments (before @ after) path"
    "query_parameters arguments (before @ JObj p # after) []
       = query_parameters arguments (before @ after) []"
    by (simp_all add: substituted_path_append query_parameters_append none)
  have "snd (call_api_operation rt st operation_id arguments)
           = [\<lparr>req_method = m,
                req_path = substituted_path rt arguments (before @ JObj p # after) path,
                req_params = query_parameters arguments (before @ JObj p # after) [],
                req_json = body_argument m arguments\<rparr>]"
    using assms(1-6) wf by (rule call_api_operation_request)
  then show "snd (call_api_operation rt st operation_id arguments)
           = [\<lparr>req_method = m,
                req_path = substituted_path rt arguments (before @ after) path,
                req_params = query_parameters arguments (before @ after) [],
                req_json = body_argument m arguments\<rparr>]"
    by (simp only: same)
  from partition_arguments_well_formed [OF assms(6) wf, of rt arguments path]
  show "partition_arguments rt arguments operation path
           = Inr (substituted_path rt arguments (before @ after) path,
                  query_parameters arguments (before @ after) [])"
    by (simp only: same)
next
  fix tools
  assume created: "create_tools_from_openapi rt st = Inr tools"
  from all_operations_member [OF resolved_member [OF assms(5)]] obtain item where
    item: "(path, JObj item) \<in> set paths" "m \<in> set http_methods" "map_of item m = Some operation"
    by blast
  from create_tools_lists_operation [OF created assms(2,3) item] obtain t where
    t: "t \<in> set tools" "tool_of_operation rt m path operation = Inr t"
    by blast
  from parameters_of_list [OF assms(6)] obtain kvs where
    kvs: "operation = JObj kvs" "map_of kvs ''parameters'' = Some (JList (before @ JObj p # after))"
    by auto
  have "JObj p \<in> set (before @ JObj p # after)" by simp
  from tool_lists_parameter [OF kvs(2) this assms(8)] t(2) kvs(1)
  have "JStr n \<in> fst ` set (properties (inputSchema t))" by simp
  with t show "\<exists>t \<in> set tools. tool_of_operation rt m path operation = Inr t
               \<and> JStr n \<in> fst ` set (properties (inputSchema t))"
    by - (rule bexI [of _ t], simp_all)
qed

text \<open>The header parameter \<open>X-Trace\<close> between a path and a query parameter: the argument
  given for it is not sent, and the placeholder of its name stays in the path.\<close>

theorem other_location_parameter_witness:
  "snd (call_api_operation example_runtime (loaded text_client traced_spec) ''getTask''
          [(''id'', JStr ''7''), (''X-Trace'', JStr ''abc''), (''filter'', JStr ''open'')])
     = [\<lparr>req_method = ''get'', req_path = ''/tasks/7/{X-Trace}'',
          req_params = [(''filter'', JStr ''open'')], req_json = None\<rparr>]"
proof -
  let ?args = "[(''id'', JStr ''7''), (''X-Trace'', JStr ''abc''), (''filter'', JStr ''open'')]"
  have a: "api_client (loaded text_client traced_spec) = Some text_client"
    and s: "openapi_spec (loaded text_client traced_spec) = Some traced_spec"
    by (simp_all add: loaded_def)
  have d: "map_of traced_spec ''paths'' = Some (JObj traced_paths)"
    by (simp add: traced_spec_def)
  have wf: "well_formed_paths traced_paths"
    by code_simp
  have f: "find (has_id ''getTask'') (all_operations traced_paths)
             = Some (''/tasks/{id}/{X-Trace}'', ''get'', JObj get_task)"
    by code_simp
  have ps: "parameters_of (JObj get_task)
              = Some ([id_parameter] @ JObj trace_parameter # [filter_parameter])"
    by (simp add: parameters_of_def get_task_def)
  have e: "list_all well_formed_parameter ([id_parameter] @ [filter_parameter])"
    by (simp add: id_parameter_def filter_parameter_def)
  have n: "map_of trace_parameter ''name'' = Some (JStr ''X-Trace'')"
    and l: "map_of trace_parameter ''in'' = Some (JStr ''header'')"
    by (simp_all add: trace_parameter_def)
  have o: "JStr ''header'' \<noteq> JStr ''path''" "JStr ''header'' \<noteq> JStr ''query''"
    by simp_all
  have p: "substituted_path example_runtime ?args ([id_parameter] @ [filter_parameter])
             ''/tasks/{id}/{X-Trace}'' = ''/tasks/7/{X-Trace}''"
    by code_simp
  have q: "query_parameters ?args ([id_parameter] @ [filter_parameter]) []
             = [(''filter'', JStr ''open'')]"
    by code_simp
  from other_location_parameter [OF a s d wf f ps e n l o, of example_runtime ?args]
  show ?thesis
    by (simp only: p q body_argument_def) simp
qed

text \<open>The header parameter is a property of the tool's input schema, against the claim.\<close>

theorem header_parameter_listed:
  "create_tools_from_openapi example_runtime (loaded text_client header_spec)
     = Inr [\<lparr>tool_name = ''listTasks'',
              tool_description = [CHR 0x0A, CHR 0x0A] @ ''Path: GET /tasks'' @ [CHR 0x0A],
              inputSchema =
                \<lparr>schema_type = ''object'',
                 properties = [(JStr ''X-Trace'',
                                JObj [(''type'', JStr ''string''), (''description'', JStr [])])],
                 required = None\<rparr>\<rparr>]"
  by code_simp

section \<open>The request body in the input schema\<close>




















section \<open>The call boundary\<close>

text \<open>
  Claim C7, as the code has it. When \<open>call_api_operation\<close> raises an error that derives
  from \<open>Exception\<close>, \<open>call_tool\<close> returns a single text payload whose text is
  \<open>"Error: "\<close> followed by \<open>str(e)\<close>; and a call in which \<open>call_api_operation\<close> raises
  nothing outside \<open>Exception\<close> returns a list of exactly one text payload and raises
  nothing.
\<close>

theorem call_tool_catches_exceptions:
  "(\<forall>e. fst (call_api_operation rt st name (case arguments of None \<Rightarrow> [] | Some a \<Rightarrow> a)) = Inl e
         \<and> derives_from_Exception (exn_class e)
         \<longrightarrow> fst (call_tool rt st name arguments)
              = Inr [\<lparr>content_type = ''text'', content_text = ''Error: '' @ exn_message e\<rparr>])
   \<and> ((\<forall>e. fst (call_api_operation rt st name (case arguments of None \<Rightarrow> [] | Some a \<Rightarrow> a)) = Inl e
          \<longrightarrow> derives_from_Exception (exn_class e))
        \<longrightarrow> (\<exists>t. fst (call_tool rt st name arguments) = Inr [t]))"
  by (simp add: call_tool_def Let_def split: sum.split)

text \<open>An unknown tool name: the not-found error comes back as the payload's text.\<close>

theorem call_tool_catches_exceptions_witness:
  "fst (call_api_operation example_runtime (loaded text_client beacons_spec) ''nope'' [])
     = Inl (Exn Exception ''Operation nope not found in OpenAPI spec'')
   \<and> fst (call_tool example_runtime (loaded text_client beacons_spec) ''nope'' None)
     = Inr [\<lparr>content_type = ''text'',
             content_text = ''Error: Operation nope not found in OpenAPI spec''\<rparr>]"
proof -
  have h: "fst (call_api_operation example_runtime (loaded text_client beacons_spec) ''nope'' [])
     = Inl (Exn Exception ''Operation nope not found in OpenAPI spec'')"
    by code_simp
  show ?thesis
    using call_tool_catches_exceptions
      [of example_runtime "loaded text_client beacons_spec" "''nope''" None] h
    by simp
qed

text \<open>\<open>except Exception\<close> does not catch \<open>asyncio.CancelledError\<close>: when the awaited request
  is cancelled, \<open>call_tool\<close> returns no payload and the exception reaches the protocol
  layer, against the claim.\<close>

theorem cancelled_request_propagates:
  "call_tool example_runtime (loaded cancelled_client beacons_spec) ''getTarget'' None
     = (Inl (Exn CancelledError []),
        [\<lparr>req_method = ''get'', req_path = ''/targets'', req_params = [], req_json = None\<rparr>])"
  by code_simp

end
